theory Spec2Isabelle
  imports Main "HOL-Library.Multiset"
begin

section \<open>Values\<close>

text \<open>
  A Python \<open>str\<close> is a sequence of Unicode code points and \<open>len\<close> counts code points,
  so a string is a list of code points. \<open>ascii\<close> embeds an ASCII literal.
  JSON numbers are restricted to integers; floating-point numbers are outside this model.
\<close>

type_synonym str = "nat list"

definition ascii :: "string \<Rightarrow> str" where
  "ascii s = map of_char s"

datatype json =
    JNull
  | JBool bool
  | JInt int
  | JStr str
  | JArr "json list"
  | JObj "(str \<times> json) list"

text \<open>\<open>datetime.date\<close>: year, month, day.\<close>

datatype date = Dt nat nat nat

text \<open>The values a schema hands back after deserialisation.\<close>

datatype pyval = PyStr str | PyInt int | PyDate date

section \<open>The validation library (marshmallow 3)\<close>

text \<open>
  \<open>schemas.py\<close> declares its three schemas with marshmallow; \<open>app.py\<close> relies on
  \<open>Schema.load\<close> raising \<open>ValidationError\<close> and returning a dict, which is the
  interface of marshmallow 3. This section models \<open>Schema.load\<close> for the field classes
  and validators that \<open>schemas.py\<close> uses, with the library's defaults:
  \<^item> fields declared \<open>dump_only\<close> are not load fields;
  \<^item> a key of the input that is not a load field is reported as unknown
    (\<open>unknown = RAISE\<close>, the default, since no schema declares \<open>Meta.unknown\<close>);
  \<^item> a field that is absent from the input and not required is left out of the result;
  \<^item> \<open>null\<close> is rejected (\<open>allow_none\<close> is false when no default is declared);
  \<^item> errors of all fields are collected before \<open>ValidationError\<close> is raised.

  Three grammars of the library and of Python are not fixed by this repository and are
  parameters of the model: the regular expressions of \<open>validate.Email\<close>, the ISO date
  parser behind \<open>fields.Date\<close>, and \<open>int()\<close> on a string (used by the non-strict
  \<open>fields.Integer\<close>).
\<close>

record lib =
  email_regex :: "str \<Rightarrow> bool"
  from_iso_date :: "str \<Rightarrow> date option"
  int_of_str :: "str \<Rightarrow> int option"

text \<open>The library's default error messages, one constructor per message.\<close>

datatype message =
    Missing_data_for_required_field
  | Field_may_not_be_null
  | Not_a_valid_string
  | Not_a_valid_integer
  | Not_a_valid_date
  | Not_a_valid_email_address
  | Length_must_be_between nat nat
  | Shorter_than_minimum_length nat
  | Longer_than_maximum_length nat
  | Must_be_one_of "str list"
  | Unknown_field
  | Invalid_input_type

datatype field_type = fields_String | fields_Integer | fields_Date | fields_Email

datatype validator =
    validate_Length "nat option" "nat option"
  | validate_OneOf "str list"
  | validate_Email

record field =
  attr :: str
  kind :: field_type
  required :: bool
  dump_only :: bool
  validate :: "validator list"

text \<open>
  \<open>validate.Email.__call__\<close>: an empty value or a value without \<open>@\<close> (code point 64)
  is rejected before the regular expressions are tried.
\<close>

definition Email_ok :: "lib \<Rightarrow> str \<Rightarrow> bool" where
  "Email_ok L v = (v \<noteq> [] \<and> 64 \<in> set v \<and> email_regex L v)"

text \<open>
  One validator applied to a deserialised value: the messages it raises (none when the
  value passes). \<open>Length\<close> compares \<open>len(value)\<close> with inclusive bounds and names both
  bounds in its message when both are set. \<open>OneOf\<close> is \<open>value in choices\<close>, that is,
  equality with one of the choices.
\<close>

fun run_validator :: "lib \<Rightarrow> validator \<Rightarrow> pyval \<Rightarrow> message list" where
  "run_validator L (validate_Length lo hi) (PyStr s) =
     (case lo of
        Some m \<Rightarrow>
          if length s < m then
            [case hi of None \<Rightarrow> Shorter_than_minimum_length m
                      | Some n \<Rightarrow> Length_must_be_between m n]
          else (case hi of
                  Some n \<Rightarrow> if n < length s then [Length_must_be_between m n] else []
                | None \<Rightarrow> [])
      | None \<Rightarrow>
          (case hi of
             Some n \<Rightarrow> if n < length s then [Longer_than_maximum_length n] else []
           | None \<Rightarrow> []))"
| "run_validator L (validate_Length lo hi) v = []"
| "run_validator L (validate_OneOf choices) (PyStr s) =
     (if s \<in> set choices then [] else [Must_be_one_of choices])"
| "run_validator L (validate_OneOf choices) v = [Must_be_one_of choices]"
| "run_validator L validate_Email (PyStr s) =
     (if Email_ok L s then [] else [Not_a_valid_email_address])"
| "run_validator L validate_Email v = [Not_a_valid_email_address]"

text \<open>
  \<open>Field._deserialize\<close> of each field class, on a value that is present and not null.
  \<open>String\<close> (and its subclass \<open>Email\<close>, which replaces the message by its own)
  accepts exactly strings. The non-strict
  \<open>Integer\<close> rejects booleans and applies \<open>int()\<close>. \<open>Date\<close> rejects every falsy
  value, then parses; a value that is not a string makes the parser raise.
\<close>

fun deserialize_value :: "lib \<Rightarrow> field_type \<Rightarrow> json \<Rightarrow> message + pyval" where
  "deserialize_value L fields_String (JStr s) = Inr (PyStr s)"
| "deserialize_value L fields_String v = Inl Not_a_valid_string"
| "deserialize_value L fields_Email (JStr s) = Inr (PyStr s)"
| "deserialize_value L fields_Email v = Inl Not_a_valid_email_address"
| "deserialize_value L fields_Integer (JInt i) = Inr (PyInt i)"
| "deserialize_value L fields_Integer (JStr s) =
     (case int_of_str L s of Some i \<Rightarrow> Inr (PyInt i) | None \<Rightarrow> Inl Not_a_valid_integer)"
| "deserialize_value L fields_Integer v = Inl Not_a_valid_integer"
| "deserialize_value L fields_Date (JStr s) =
     (if s = [] then Inl Not_a_valid_date
      else case from_iso_date L s of Some d \<Rightarrow> Inr (PyDate d) | None \<Rightarrow> Inl Not_a_valid_date)"
| "deserialize_value L fields_Date v = Inl Not_a_valid_date"

text \<open>The validators of a field: \<open>fields.Email\<close> puts its own validator first.\<close>

definition validators_of :: "field \<Rightarrow> validator list" where
  "validators_of f =
     (if kind f = fields_Email then validate_Email # validate f else validate f)"

text \<open>
  \<open>Field.deserialize\<close>: the required check, the null check, \<open>_deserialize\<close>, then all
  validators (their messages are concatenated). \<open>None\<close> as input is the library's
  \<open>missing\<close>; \<open>Inr None\<close> as result means the field stays out of the result.
\<close>

definition deserialize :: "lib \<Rightarrow> field \<Rightarrow> json option \<Rightarrow> message list + pyval option" where
  "deserialize L f raw =
     (case raw of
        None \<Rightarrow> if required f then Inl [Missing_data_for_required_field] else Inr None
      | Some JNull \<Rightarrow> Inl [Field_may_not_be_null]
      | Some v \<Rightarrow>
          (case deserialize_value L (kind f) v of
             Inl m \<Rightarrow> Inl [m]
           | Inr out \<Rightarrow>
               (case concat (map (\<lambda>c. run_validator L c out) (validators_of f)) of
                  [] \<Rightarrow> Inr (Some out)
                | ms \<Rightarrow> Inl ms)))"

definition load_fields :: "field list \<Rightarrow> field list" where
  "load_fields schema = filter (\<lambda>f. \<not> dump_only f) schema"

text \<open>
  The error dict of a load: an entry for each load field whose deserialisation failed, in
  declaration order, then \<open>Unknown field.\<close> for each key of the input that no load field
  has. (A dict is unordered; the order of the list carries no meaning.)
\<close>

definition field_errors :: "lib \<Rightarrow> field list \<Rightarrow> (str \<times> json) list \<Rightarrow> (str \<times> message list) list" where
  "field_errors L schema kvs =
     concat (map (\<lambda>f. case deserialize L f (map_of kvs (attr f)) of
                         Inl ms \<Rightarrow> [(attr f, ms)] | Inr _ \<Rightarrow> [])
                 (load_fields schema))"

definition unknown_errors :: "field list \<Rightarrow> (str \<times> json) list \<Rightarrow> (str \<times> message list) list" where
  "unknown_errors schema kvs =
     map (\<lambda>k. (k, [Unknown_field]))
         (remdups (filter (\<lambda>k. k \<notin> set (map attr (load_fields schema))) (map fst kvs)))"

definition loaded :: "lib \<Rightarrow> field list \<Rightarrow> (str \<times> json) list \<Rightarrow> (str \<times> pyval) list" where
  "loaded L schema kvs =
     concat (map (\<lambda>f. case deserialize L f (map_of kvs (attr f)) of
                         Inr (Some v) \<Rightarrow> [(attr f, v)] | _ \<Rightarrow> [])
                 (load_fields schema))"

section \<open>Exceptions\<close>

datatype table = TB_PROJETOS | TB_TAREFAS | TB_USUARIOS

datatype sqlite3_error =
    NOT_NULL_constraint_failed table str
  | UNIQUE_constraint_failed table str
  | Unsupported_type

datatype exn =
    ValidationError "(str \<times> message list) list"
  | sqlite3_Error sqlite3_error
  | KeyError str
  | TypeError
  | OverflowError
  | UnicodeEncodeError

text \<open>
  \<open>Schema.load\<close>: input that is not a mapping is an error under the key \<open>_schema\<close>;
  otherwise \<open>ValidationError\<close> with the error dict when it is not empty, and the dict of
  deserialised values when it is.
\<close>

definition load :: "lib \<Rightarrow> field list \<Rightarrow> json \<Rightarrow> exn + (str \<times> pyval) list" where
  "load L schema data =
     (case data of
        JObj kvs \<Rightarrow>
          (case field_errors L schema kvs @ unknown_errors schema kvs of
             [] \<Rightarrow> Inr (loaded L schema kvs)
           | errs \<Rightarrow> Inl (ValidationError errs))
      | _ \<Rightarrow> Inl (ValidationError [(ascii ''_schema'', [Invalid_input_type])]))"

section \<open>The schemas of \<open>schemas.py\<close>\<close>

definition Length_1_255 :: validator where
  "Length_1_255 = validate_Length (Some 1) (Some 255)"

definition ProjetoSchema :: "field list" where
  "ProjetoSchema =
     [\<lparr>attr = ascii ''id'', kind = fields_Integer, required = False, dump_only = True,
        validate = []\<rparr>,
      \<lparr>attr = ascii ''nome'', kind = fields_String, required = True, dump_only = False,
        validate = [Length_1_255]\<rparr>,
      \<lparr>attr = ascii ''descricao'', kind = fields_String, required = False, dump_only = False,
        validate = []\<rparr>,
      \<lparr>attr = ascii ''data_inicio'', kind = fields_Date, required = False, dump_only = False,
        validate = []\<rparr>,
      \<lparr>attr = ascii ''data_fim'', kind = fields_Date, required = False, dump_only = False,
        validate = []\<rparr>]"

text \<open>
  The allowed values of \<open>status\<close> and \<open>prioridade\<close>. Code point 237 is the i with acute
  accent of the third status, 233 the e with acute accent of the second priority.
\<close>

definition status_choices :: "str list" where
  "status_choices =
     [ascii ''Pendente'', ascii ''Em andamento'', ascii ''Conclu'' @ [237] @ ascii ''da'']"

definition prioridade_choices :: "str list" where
  "prioridade_choices = [ascii ''Baixa'', ascii ''M'' @ [233] @ ascii ''dia'', ascii ''Alta'']"

definition TarefaSchema :: "field list" where
  "TarefaSchema =
     [\<lparr>attr = ascii ''id'', kind = fields_Integer, required = False, dump_only = True,
        validate = []\<rparr>,
      \<lparr>attr = ascii ''titulo'', kind = fields_String, required = True, dump_only = False,
        validate = [Length_1_255]\<rparr>,
      \<lparr>attr = ascii ''descricao'', kind = fields_String, required = False, dump_only = False,
        validate = []\<rparr>,
      \<lparr>attr = ascii ''status'', kind = fields_String, required = False, dump_only = False,
        validate = [validate_OneOf status_choices]\<rparr>,
      \<lparr>attr = ascii ''prioridade'', kind = fields_String, required = False, dump_only = False,
        validate = [validate_OneOf prioridade_choices]\<rparr>,
      \<lparr>attr = ascii ''data_vencimento'', kind = fields_Date, required = False,
        dump_only = False, validate = []\<rparr>,
      \<lparr>attr = ascii ''projeto_id'', kind = fields_Integer, required = False, dump_only = False,
        validate = []\<rparr>,
      \<lparr>attr = ascii ''responsavel_id'', kind = fields_Integer, required = False,
        dump_only = False, validate = []\<rparr>]"

definition UsuarioSchema :: "field list" where
  "UsuarioSchema =
     [\<lparr>attr = ascii ''id'', kind = fields_Integer, required = False, dump_only = True,
        validate = []\<rparr>,
      \<lparr>attr = ascii ''nome'', kind = fields_String, required = True, dump_only = False,
        validate = [Length_1_255]\<rparr>,
      \<lparr>attr = ascii ''email'', kind = fields_Email, required = True, dump_only = False,
        validate = []\<rparr>,
      \<lparr>attr = ascii ''senha'', kind = fields_String, required = True, dump_only = False,
        validate = [validate_Length (Some 6) None]\<rparr>]"

section \<open>The store\<close>

text \<open>
  The SQLite file created by \<open>banco_projetos.py\<close>: three tables, each with an
  \<open>INTEGER PRIMARY KEY AUTOINCREMENT\<close> column \<open>id\<close>. A row is its id and the values of
  the other columns in declaration order. \<open>sqlite_sequence\<close> is SQLite's record of the
  largest id ever given out per table. Foreign keys are declared but SQLite does not
  enforce them unless asked to, and the code never asks.

  The model is the relational behaviour of the four statements the handlers issue and of
  the declared \<open>NOT NULL\<close> and \<open>UNIQUE\<close> constraints. What a statement can be given
  as a parameter is decided when Python values are bound to it (next section). Failures
  of the file itself are outside the model.
  Column affinity never converts a value the handlers bind (strings go to text columns,
  integers to integer columns, and the text of a date is no number), so it is left out.
\<close>

datatype sqlval = NULL | INTEGER int | TEXT str

type_synonym row = "int \<times> sqlval list"

record database =
  rows :: "table \<Rightarrow> row list"
  sqlite_sequence :: "table \<Rightarrow> int"

definition columns :: "table \<Rightarrow> str list" where
  "columns t =
     (case t of
        TB_PROJETOS \<Rightarrow>
          [ascii ''nome'', ascii ''descricao'', ascii ''data_inicio'', ascii ''data_fim'']
      | TB_TAREFAS \<Rightarrow>
          [ascii ''titulo'', ascii ''descricao'', ascii ''status'', ascii ''prioridade'',
           ascii ''data_vencimento'', ascii ''projeto_id'', ascii ''responsavel_id'']
      | TB_USUARIOS \<Rightarrow> [ascii ''nome'', ascii ''email'', ascii ''senha''])"

definition not_null :: "table \<Rightarrow> str list" where
  "not_null t =
     (case t of
        TB_PROJETOS \<Rightarrow> [ascii ''nome'']
      | TB_TAREFAS \<Rightarrow> [ascii ''titulo'']
      | TB_USUARIOS \<Rightarrow> [ascii ''nome'', ascii ''email'', ascii ''senha''])"

definition unique :: "table \<Rightarrow> str list" where
  "unique t = (case t of TB_USUARIOS \<Rightarrow> [ascii ''email''] | _ \<Rightarrow> [])"

datatype stmt =
    SELECT_ALL table
  | INSERT table "sqlval list"
  | UPDATE table "sqlval list" int
  | DELETE table int

fun stmt_table :: "stmt \<Rightarrow> table" where
  "stmt_table (SELECT_ALL t) = t"
| "stmt_table (INSERT t vs) = t"
| "stmt_table (UPDATE t vs i) = t"
| "stmt_table (DELETE t i) = t"

text \<open>
  The constraint a new tuple of values violates against the other rows of its table, if
  any: a \<open>NOT NULL\<close> column that gets \<open>NULL\<close>, or a \<open>UNIQUE\<close> column whose value
  (not \<open>NULL\<close>) another row already has in that column.
\<close>

definition null_violations :: "table \<Rightarrow> sqlval list \<Rightarrow> str list" where
  "null_violations t vs =
     map fst (filter (\<lambda>(c, v). c \<in> set (not_null t) \<and> v = NULL) (zip (columns t) vs))"

definition column_values :: "table \<Rightarrow> str \<Rightarrow> row list \<Rightarrow> sqlval list" where
  "column_values t c rs =
     concat (map (\<lambda>r. map snd (filter (\<lambda>(c', v). c' = c) (zip (columns t) (snd r)))) rs)"

definition unique_violations :: "table \<Rightarrow> row list \<Rightarrow> sqlval list \<Rightarrow> str list" where
  "unique_violations t others vs =
     map fst (filter (\<lambda>(c, v). c \<in> set (unique t) \<and> v \<noteq> NULL \<and> v \<in> set (column_values t c others))
                     (zip (columns t) vs))"

definition violation :: "table \<Rightarrow> row list \<Rightarrow> sqlval list \<Rightarrow> sqlite3_error option" where
  "violation t others vs =
     (case null_violations t vs of
        c # _ \<Rightarrow> Some (NOT_NULL_constraint_failed t c)
      | [] \<Rightarrow>
          (case unique_violations t others vs of
             c # _ \<Rightarrow> Some (UNIQUE_constraint_failed t c)
           | [] \<Rightarrow> None))"

text \<open>
  \<open>AUTOINCREMENT\<close>: the new id is one more than the largest id the table has ever held.
\<close>

definition next_rowid :: "database \<Rightarrow> table \<Rightarrow> int" where
  "next_rowid d t = fold max (map fst (rows d t)) (max 0 (sqlite_sequence d t)) + 1"

text \<open>
  One statement on the store: the error it raises, or the store after it and the rows it
  returns. A statement that raises changes nothing. \<open>UPDATE\<close> and \<open>DELETE\<close> act on
  the rows \<open>WHERE id = ?\<close>; with no such row they change nothing and raise nothing.
\<close>

fun execute :: "database \<Rightarrow> stmt \<Rightarrow> sqlite3_error + (database \<times> row list)" where
  "execute d (SELECT_ALL t) = Inr (d, rows d t)"
| "execute d (INSERT t vs) =
     (case violation t (rows d t) vs of
        Some e \<Rightarrow> Inl e
      | None \<Rightarrow>
          Inr (d\<lparr>rows := (rows d)(t := rows d t @ [(next_rowid d t, vs)]),
                 sqlite_sequence := (sqlite_sequence d)(t := next_rowid d t)\<rparr>, []))"
| "execute d (UPDATE t vs i) =
     (if i \<in> set (map fst (rows d t)) then
        (case violation t (filter (\<lambda>r. fst r \<noteq> i) (rows d t)) vs of
           Some e \<Rightarrow> Inl e
         | None \<Rightarrow>
             Inr (d\<lparr>rows := (rows d)(t := map (\<lambda>r. if fst r = i then (i, vs) else r) (rows d t))\<rparr>,
                  []))
      else Inr (d, []))"
| "execute d (DELETE t i) =
     Inr (d\<lparr>rows := (rows d)(t := filter (\<lambda>r. fst r \<noteq> i) (rows d t))\<rparr>, [])"

section \<open>Binding Python values to a statement\<close>

text \<open>
  \<open>sqlite3\<close> binds a \<open>str\<close> as text, an \<open>int\<close> as integer and a \<open>datetime.date\<close>
  through its default adapter, \<open>date.isoformat()\<close>: four digits of year, two of month,
  two of day, separated by \<open>-\<close> (code point 45; 48 is the digit zero).
\<close>

fun dec :: "nat \<Rightarrow> str" where
  "dec n = (if n < 10 then [48 + n] else dec (n div 10) @ [48 + n mod 10])"

definition zfill :: "nat \<Rightarrow> str \<Rightarrow> str" where
  "zfill w s = replicate (w - length s) 48 @ s"

fun isoformat :: "date \<Rightarrow> str" where
  "isoformat (Dt y m d) = zfill 4 (dec y) @ [45] @ zfill 2 (dec m) @ [45] @ zfill 2 (dec d)"

text \<open>
  Binding can fail. An SQLite integer is a signed 64-bit number, and \<open>sqlite3\<close> raises
  \<open>OverflowError\<close> for a Python \<open>int\<close> outside that range. Text is passed as UTF-8,
  and a \<open>str\<close> that holds a surrogate code point (55296 to 57343) cannot be encoded:
  \<open>UnicodeEncodeError\<close>.
\<close>

definition sqlite_int :: "int \<Rightarrow> bool" where
  "sqlite_int i = (- 9223372036854775808 \<le> i \<and> i \<le> 9223372036854775807)"

definition encodable :: "str \<Rightarrow> bool" where
  "encodable s = list_all (\<lambda>c. int c < 55296 \<or> 57343 < int c) s"

fun adapt :: "pyval \<Rightarrow> exn + sqlval" where
  "adapt (PyStr s) = (if encodable s then Inr (TEXT s) else Inl UnicodeEncodeError)"
| "adapt (PyInt i) = (if sqlite_int i then Inr (INTEGER i) else Inl OverflowError)"
| "adapt (PyDate d) = Inr (TEXT (isoformat d))"

text \<open>
  The user handlers bind values of the parsed JSON body itself. A list or an object has
  no SQLite type and makes \<open>execute\<close> raise an error of \<open>sqlite3\<close>.
\<close>

fun adapt_json :: "json \<Rightarrow> exn + sqlval" where
  "adapt_json JNull = Inr NULL"
| "adapt_json (JBool b) = Inr (INTEGER (if b then 1 else 0))"
| "adapt_json (JInt i) = (if sqlite_int i then Inr (INTEGER i) else Inl OverflowError)"
| "adapt_json (JStr s) = (if encodable s then Inr (TEXT s) else Inl UnicodeEncodeError)"
| "adapt_json (JArr xs) = Inl (sqlite3_Error Unsupported_type)"
| "adapt_json (JObj kvs) = Inl (sqlite3_Error Unsupported_type)"

text \<open>The parameters of a statement are bound in order; the first that fails raises.\<close>

fun bind_all :: "('a \<Rightarrow> exn + sqlval) \<Rightarrow> 'a list \<Rightarrow> exn + sqlval list" where
  "bind_all f [] = Inr []"
| "bind_all f (v # vs) =
     (case f v of
        Inl e \<Rightarrow> Inl e
      | Inr x \<Rightarrow> (case bind_all f vs of Inl e \<Rightarrow> Inl e | Inr xs \<Rightarrow> Inr (x # xs)))"

text \<open>The identifier of the path, bound to \<open>WHERE id = ?\<close>.\<close>

definition bind_id :: "int \<Rightarrow> exn + int" where
  "bind_id i = (if sqlite_int i then Inr i else Inl OverflowError)"

text \<open>
  The three writing statements with their parameters bound: the values of an
  \<open>INSERT\<close>; the values and then the identifier of an \<open>UPDATE\<close>; the identifier of a
  \<open>DELETE\<close>. The result is the statement, or the exception of the binding.
\<close>

definition INSERT_INTO :: "table \<Rightarrow> exn + sqlval list \<Rightarrow> exn + stmt" where
  "INSERT_INTO t params = (case params of Inl e \<Rightarrow> Inl e | Inr xs \<Rightarrow> Inr (INSERT t xs))"

definition UPDATE_WHERE_id :: "table \<Rightarrow> exn + sqlval list \<Rightarrow> int \<Rightarrow> exn + stmt" where
  "UPDATE_WHERE_id t params i =
     (case params of
        Inl e \<Rightarrow> Inl e
      | Inr xs \<Rightarrow> (case bind_id i of Inl e \<Rightarrow> Inl e | Inr j \<Rightarrow> Inr (UPDATE t xs j)))"

definition DELETE_WHERE_id :: "table \<Rightarrow> int \<Rightarrow> exn + stmt" where
  "DELETE_WHERE_id t i = (case bind_id i of Inl e \<Rightarrow> Inl e | Inr j \<Rightarrow> Inr (DELETE t j))"

text \<open>
  The tuple \<open>(dados['a'], dados['b'], ...)\<close>: the subscriptions are evaluated from left
  to right and the first key that is missing raises \<open>KeyError\<close>.
\<close>

fun getitems :: "(str \<times> 'v) list \<Rightarrow> str list \<Rightarrow> exn + 'v list" where
  "getitems dados [] = Inr []"
| "getitems dados (k # ks) =
     (case map_of dados k of
        None \<Rightarrow> Inl (KeyError k)
      | Some v \<Rightarrow> (case getitems dados ks of Inl e \<Rightarrow> Inl e | Inr vs \<Rightarrow> Inr (v # vs)))"

definition getitems_json :: "json \<Rightarrow> str list \<Rightarrow> exn + json list" where
  "getitems_json body ks = (case body of JObj kvs \<Rightarrow> getitems kvs ks | _ \<Rightarrow> Inl TypeError)"

text \<open>What \<open>dict(row)\<close> of a fetched row serialises to.\<close>

fun json_of_sqlval :: "sqlval \<Rightarrow> json" where
  "json_of_sqlval NULL = JNull"
| "json_of_sqlval (INTEGER i) = JInt i"
| "json_of_sqlval (TEXT s) = JStr s"

definition dict_of_row :: "table \<Rightarrow> row \<Rightarrow> (str \<times> json) list" where
  "dict_of_row t r = (ascii ''id'', JInt (fst r)) # zip (columns t) (map json_of_sqlval (snd r))"

section \<open>The request handlers of \<open>app.py\<close>\<close>

text \<open>
  A handler runs in a world: the store, the log file \<open>api.log\<close>, and a trace of what was
  done to database connections (a ghost field: it records the calls of
  \<open>get_db_connection\<close>, \<open>execute\<close>, \<open>commit\<close> and \<open>close\<close> in order and is never read
  by a handler). A handler either returns a response, or an exception leaves it and is
  Flask's to deal with.
\<close>

datatype log_entry =
    Erro_de_validacao "(str \<times> message list) list"
  | Erro_de_Banco_de_Dados sqlite3_error

datatype db_event = Connect | Execute stmt | Commit | Close

record world =
  db :: database
  api_log :: "log_entry list"
  db_trace :: "db_event list"

datatype body =
    Mensagem str
  | Errors "(str \<times> message list) list"
  | Records "(str \<times> json) list list"

datatype outcome = Response nat body | Raised exn

definition Erro_interno_do_servidor :: str where
  "Erro_interno_do_servidor = ascii ''Erro interno do servidor''"

text \<open>
  The \<open>try\<close> block that opens every create and update handler. Only \<open>schema.load\<close> is
  inside it; its two \<open>except\<close> clauses return 400 with the error dict and 500 with the
  fixed message, each after a line in the log. Any other exception is not caught.
\<close>

definition try_load :: "lib \<Rightarrow> field list \<Rightarrow> world \<Rightarrow> json \<Rightarrow> (world \<times> outcome) + (str \<times> pyval) list" where
  "try_load L schema w body =
     (case load L schema body of
        Inr dados \<Rightarrow> Inr dados
      | Inl (ValidationError msgs) \<Rightarrow>
          Inl (w\<lparr>api_log := api_log w @ [Erro_de_validacao msgs]\<rparr>, Response 400 (Errors msgs))
      | Inl (sqlite3_Error e) \<Rightarrow>
          Inl (w\<lparr>api_log := api_log w @ [Erro_de_Banco_de_Dados e]\<rparr>,
               Response 500 (Mensagem Erro_interno_do_servidor))
      | Inl e \<Rightarrow> Inl (w, Raised e))"

definition get_db_connection :: "world \<Rightarrow> world" where
  "get_db_connection w = w\<lparr>db_trace := db_trace w @ [Connect]\<rparr>"

text \<open>
  \<open>conn.execute(...)\<close>, \<open>conn.commit()\<close>, \<open>conn.close()\<close> and the \<open>return\<close> of a
  writing handler. \<open>execute\<close> binds the parameters before it runs the statement, so
  an exception of the binding leaves the handler with no statement executed. These
  lines are outside every \<open>try\<close>: an error of the statement leaves the handler as an
  exception too, with nothing committed.
\<close>

definition run_write :: "world \<Rightarrow> exn + stmt \<Rightarrow> nat \<Rightarrow> str \<Rightarrow> world \<times> outcome" where
  "run_write w call status msg =
     (case call of
        Inl e \<Rightarrow> (w, Raised e)
      | Inr s \<Rightarrow>
          (case execute (db w) s of
             Inl e \<Rightarrow> (w\<lparr>db_trace := db_trace w @ [Execute s]\<rparr>, Raised (sqlite3_Error e))
           | Inr (d, _) \<Rightarrow>
               (w\<lparr>db := d, db_trace := db_trace w @ [Execute s, Commit, Close]\<rparr>,
                Response status (Mensagem msg))))"

text \<open>\<open>SELECT * FROM t\<close>, \<open>fetchall\<close>, \<open>close\<close>, and the rows as a JSON array of dicts.\<close>

definition run_select :: "world \<Rightarrow> table \<Rightarrow> world \<times> outcome" where
  "run_select w t =
     (case execute (db w) (SELECT_ALL t) of
        Inl e \<Rightarrow> (w\<lparr>db_trace := db_trace w @ [Execute (SELECT_ALL t)]\<rparr>, Raised (sqlite3_Error e))
      | Inr (d, rs) \<Rightarrow>
          (w\<lparr>db := d, db_trace := db_trace w @ [Execute (SELECT_ALL t), Close]\<rparr>,
           Response 200 (Records (map (dict_of_row t) rs))))"

subsection \<open>Projects\<close>

definition projeto_keys :: "str list" where
  "projeto_keys = [ascii ''nome'', ascii ''descricao'', ascii ''data_inicio'', ascii ''data_fim'']"

definition listar_projetos :: "world \<Rightarrow> world \<times> outcome" where
  "listar_projetos w = run_select (get_db_connection w) TB_PROJETOS"

definition criar_projeto :: "lib \<Rightarrow> world \<Rightarrow> json \<Rightarrow> world \<times> outcome" where
  "criar_projeto L w body =
     (case try_load L ProjetoSchema w body of
        Inl r \<Rightarrow> r
      | Inr dados \<Rightarrow>
          (case getitems dados projeto_keys of
             Inl e \<Rightarrow> (get_db_connection w, Raised e)
           | Inr vs \<Rightarrow>
               run_write (get_db_connection w) (INSERT_INTO TB_PROJETOS (bind_all adapt vs)) 201
                 (ascii ''Projeto criado com sucesso!'')))"

definition atualizar_projeto :: "lib \<Rightarrow> world \<Rightarrow> int \<Rightarrow> json \<Rightarrow> world \<times> outcome" where
  "atualizar_projeto L w i body =
     (case try_load L ProjetoSchema w body of
        Inl r \<Rightarrow> r
      | Inr dados \<Rightarrow>
          (case getitems dados projeto_keys of
             Inl e \<Rightarrow> (get_db_connection w, Raised e)
           | Inr vs \<Rightarrow>
               run_write (get_db_connection w) (UPDATE_WHERE_id TB_PROJETOS (bind_all adapt vs) i) 200
                 (ascii ''Projeto atualizado com sucesso!'')))"

definition excluir_projeto :: "world \<Rightarrow> int \<Rightarrow> world \<times> outcome" where
  "excluir_projeto w i =
     run_write (get_db_connection w) (DELETE_WHERE_id TB_PROJETOS i) 200
       (ascii ''Projeto exclu'' @ [237] @ ascii ''do com sucesso!'')"

subsection \<open>Tasks\<close>

definition tarefa_keys :: "str list" where
  "tarefa_keys =
     [ascii ''titulo'', ascii ''descricao'', ascii ''status'', ascii ''prioridade'',
      ascii ''data_vencimento'', ascii ''projeto_id'', ascii ''responsavel_id'']"

definition listar_tarefas :: "world \<Rightarrow> world \<times> outcome" where
  "listar_tarefas w = run_select (get_db_connection w) TB_TAREFAS"

definition criar_tarefa :: "lib \<Rightarrow> world \<Rightarrow> json \<Rightarrow> world \<times> outcome" where
  "criar_tarefa L w body =
     (case try_load L TarefaSchema w body of
        Inl r \<Rightarrow> r
      | Inr dados \<Rightarrow>
          (case getitems dados tarefa_keys of
             Inl e \<Rightarrow> (get_db_connection w, Raised e)
           | Inr vs \<Rightarrow>
               run_write (get_db_connection w) (INSERT_INTO TB_TAREFAS (bind_all adapt vs)) 201
                 (ascii ''Tarefa criada com sucesso!'')))"

definition atualizar_tarefa :: "lib \<Rightarrow> world \<Rightarrow> int \<Rightarrow> json \<Rightarrow> world \<times> outcome" where
  "atualizar_tarefa L w i body =
     (case try_load L TarefaSchema w body of
        Inl r \<Rightarrow> r
      | Inr dados \<Rightarrow>
          (case getitems dados tarefa_keys of
             Inl e \<Rightarrow> (get_db_connection w, Raised e)
           | Inr vs \<Rightarrow>
               run_write (get_db_connection w) (UPDATE_WHERE_id TB_TAREFAS (bind_all adapt vs) i) 200
                 (ascii ''Tarefa atualizada com sucesso!'')))"

definition excluir_tarefa :: "world \<Rightarrow> int \<Rightarrow> world \<times> outcome" where
  "excluir_tarefa w i =
     run_write (get_db_connection w) (DELETE_WHERE_id TB_TAREFAS i) 200
       (ascii ''Tarefa exclu'' @ [237] @ ascii ''da com sucesso!'')"

subsection \<open>Users\<close>

text \<open>
  After validation the user handlers rebind \<open>dados\<close> to the parsed body itself
  (\<open>dados = request.get_json()\<close>) and read their three values from it.
\<close>

definition usuario_keys :: "str list" where
  "usuario_keys = [ascii ''nome'', ascii ''email'', ascii ''senha'']"

definition listar_usuarios :: "world \<Rightarrow> world \<times> outcome" where
  "listar_usuarios w = run_select (get_db_connection w) TB_USUARIOS"

definition criar_usuario :: "lib \<Rightarrow> world \<Rightarrow> json \<Rightarrow> world \<times> outcome" where
  "criar_usuario L w body =
     (case try_load L UsuarioSchema w body of
        Inl r \<Rightarrow> r
      | Inr _ \<Rightarrow>
          (case getitems_json body usuario_keys of
             Inl e \<Rightarrow> (get_db_connection w, Raised e)
           | Inr vs \<Rightarrow>
               run_write (get_db_connection w) (INSERT_INTO TB_USUARIOS (bind_all adapt_json vs)) 201
                 (ascii ''Usu'' @ [225] @ ascii ''rio criado com sucesso!'')))"

definition atualizar_usuario :: "lib \<Rightarrow> world \<Rightarrow> int \<Rightarrow> json \<Rightarrow> world \<times> outcome" where
  "atualizar_usuario L w i body =
     (case try_load L UsuarioSchema w body of
        Inl r \<Rightarrow> r
      | Inr _ \<Rightarrow>
          (case getitems_json body usuario_keys of
             Inl e \<Rightarrow> (get_db_connection w, Raised e)
           | Inr vs \<Rightarrow>
               run_write (get_db_connection w)
                 (UPDATE_WHERE_id TB_USUARIOS (bind_all adapt_json vs) i) 200
                 (ascii ''Usu'' @ [225] @ ascii ''rio atualizado com sucesso!'')))"

definition excluir_usuario :: "world \<Rightarrow> int \<Rightarrow> world \<times> outcome" where
  "excluir_usuario w i =
     run_write (get_db_connection w) (DELETE_WHERE_id TB_USUARIOS i) 200
       (ascii ''Usu'' @ [225] @ ascii ''rio exclu'' @ [237] @ ascii ''do com sucesso!'')"

subsection \<open>The welcome route and the URL map\<close>

definition boas_vindas :: "world \<Rightarrow> world \<times> outcome" where
  "boas_vindas w =
     (w, Response 200
           (Mensagem (ascii ''Bem-vindo '' @ [224] @ ascii '' API Gerenciador de Tarefas e Projetos!'')))"

datatype entity = Projeto | Tarefa | Usuario

fun entity_table :: "entity \<Rightarrow> table" where
  "entity_table Projeto = TB_PROJETOS"
| "entity_table Tarefa = TB_TAREFAS"
| "entity_table Usuario = TB_USUARIOS"

text \<open>
  The routes of \<open>app.py\<close>: \<open>GET\<close>, \<open>POST\<close>, \<open>PUT\<close> and \<open>DELETE\<close> on each of the three
  collections, and \<open>GET /\<close>. A request carries the identifier of its path and its
  parsed JSON body where the route has one.
\<close>

datatype request =
    HTTP_GET entity
  | HTTP_POST entity json
  | HTTP_PUT entity int json
  | HTTP_DELETE entity int
  | HTTP_GET_root

fun handle :: "lib \<Rightarrow> world \<Rightarrow> request \<Rightarrow> world \<times> outcome" where
  "handle L w (HTTP_GET Projeto) = listar_projetos w"
| "handle L w (HTTP_POST Projeto body) = criar_projeto L w body"
| "handle L w (HTTP_PUT Projeto i body) = atualizar_projeto L w i body"
| "handle L w (HTTP_DELETE Projeto i) = excluir_projeto w i"
| "handle L w (HTTP_GET Tarefa) = listar_tarefas w"
| "handle L w (HTTP_POST Tarefa body) = criar_tarefa L w body"
| "handle L w (HTTP_PUT Tarefa i body) = atualizar_tarefa L w i body"
| "handle L w (HTTP_DELETE Tarefa i) = excluir_tarefa w i"
| "handle L w (HTTP_GET Usuario) = listar_usuarios w"
| "handle L w (HTTP_POST Usuario body) = criar_usuario L w body"
| "handle L w (HTTP_PUT Usuario i body) = atualizar_usuario L w i body"
| "handle L w (HTTP_DELETE Usuario i) = excluir_usuario w i"
| "handle L w HTTP_GET_root = boas_vindas w"

section \<open>An instance of the library parameters, and example data\<close>

text \<open>
  For closed examples the three grammars are instantiated by ASCII fragments that the
  library accepts: dates written \<open>YYYY-MM-DD\<close> that exist in the calendar, integers
  written as ASCII digits with an optional minus sign, and addresses whose local part
  is ASCII letters and digits and whose domain is dot-separated labels of ASCII letters
  and digits ending in a label of two to six letters. The examples below use inputs
  inside these fragments, or inputs on which the grammars are never consulted.
\<close>

definition is_digit :: "nat \<Rightarrow> bool" where
  "is_digit c = (48 \<le> c \<and> c \<le> 57)"

definition is_alpha :: "nat \<Rightarrow> bool" where
  "is_alpha c = ((65 \<le> c \<and> c \<le> 90) \<or> (97 \<le> c \<and> c \<le> 122))"

definition is_alnum :: "nat \<Rightarrow> bool" where
  "is_alnum c = (is_digit c \<or> is_alpha c)"

definition number :: "str \<Rightarrow> nat" where
  "number s = fold (\<lambda>c n. 10 * n + (c - 48)) s 0"

fun split_on :: "nat \<Rightarrow> str \<Rightarrow> str list" where
  "split_on sep [] = [[]]"
| "split_on sep (c # cs) =
     (if c = sep then [] # split_on sep cs
      else (case split_on sep cs of p # ps \<Rightarrow> (c # p) # ps | [] \<Rightarrow> [[c]]))"

definition days_in_month :: "nat \<Rightarrow> nat \<Rightarrow> nat" where
  "days_in_month y m =
     (if m = 2 then (if y mod 4 = 0 \<and> (y mod 100 \<noteq> 0 \<or> y mod 400 = 0) then 29 else 28)
      else if m \<in> {4, 6, 9, 11} then 30 else 31)"

definition ascii_from_iso_date :: "str \<Rightarrow> date option" where
  "ascii_from_iso_date s =
     (case split_on 45 s of
        [y, m, d] \<Rightarrow>
          if length y = 4 \<and> length m = 2 \<and> length d = 2 \<and> list_all is_digit (y @ m @ d)
             \<and> 1 \<le> number y \<and> 1 \<le> number m \<and> number m \<le> 12
             \<and> 1 \<le> number d \<and> number d \<le> days_in_month (number y) (number m)
          then Some (Dt (number y) (number m) (number d)) else None
      | _ \<Rightarrow> None)"

definition ascii_int_of_str :: "str \<Rightarrow> int option" where
  "ascii_int_of_str s =
     (case s of
        [] \<Rightarrow> None
      | c # cs \<Rightarrow>
          if c = 45 then (if cs \<noteq> [] \<and> list_all is_digit cs then Some (- int (number cs)) else None)
          else if list_all is_digit s then Some (int (number s)) else None)"

definition ascii_email_regex :: "str \<Rightarrow> bool" where
  "ascii_email_regex v =
     (case split_on 64 v of
        [u, dmn] \<Rightarrow>
          u \<noteq> [] \<and> list_all is_alnum u \<and> 2 \<le> length (split_on 46 dmn)
          \<and> list_all (\<lambda>l. l \<noteq> [] \<and> length l \<le> 63 \<and> list_all is_alnum l) (split_on 46 dmn)
          \<and> list_all is_alpha (last (split_on 46 dmn))
          \<and> 2 \<le> length (last (split_on 46 dmn)) \<and> length (last (split_on 46 dmn)) \<le> 6
      | _ \<Rightarrow> False)"

definition ascii_lib :: lib where
  "ascii_lib =
     \<lparr>email_regex = ascii_email_regex, from_iso_date = ascii_from_iso_date,
      int_of_str = ascii_int_of_str\<rparr>"

definition empty_db :: database where
  "empty_db = \<lparr>rows = (\<lambda>t. []), sqlite_sequence = (\<lambda>t. 0)\<rparr>"

definition world0 :: world where
  "world0 = \<lparr>db = empty_db, api_log = [], db_trace = []\<rparr>"

text \<open>
  A store with one project, one task and one user, each with id 1, and the world around it.
\<close>

definition ana_row :: row where
  "ana_row = (1, [TEXT (ascii ''Ana''), TEXT (ascii ''ana@example.com''), TEXT (ascii ''segredo1'')])"

definition p1_row :: row where
  "p1_row = (1, [TEXT (ascii ''P1''), TEXT (ascii ''d''), TEXT (ascii ''2024-01-01''),
                 TEXT (ascii ''2024-02-01'')])"

definition t1_row :: row where
  "t1_row = (1, [TEXT (ascii ''T1''), TEXT (ascii ''d''), TEXT (ascii ''Pendente''),
                 TEXT (ascii ''Alta''), TEXT (ascii ''2024-03-01''), INTEGER 1, INTEGER 1])"

definition db1 :: database where
  "db1 = \<lparr>rows = (\<lambda>t. case t of TB_PROJETOS \<Rightarrow> [p1_row] | TB_TAREFAS \<Rightarrow> [t1_row]
                          | TB_USUARIOS \<Rightarrow> [ana_row]),
          sqlite_sequence = (\<lambda>t. 1)\<rparr>"

definition world1 :: world where
  "world1 = \<lparr>db = db1, api_log = [], db_trace = []\<rparr>"

text \<open>The same store with a second task, whose optional columns are mostly \<open>NULL\<close>.\<close>

definition t2_row :: row where
  "t2_row = (2, [TEXT (ascii ''T2''), NULL, TEXT (ascii ''Pendente''), NULL, NULL, INTEGER 1, NULL])"

definition db2 :: database where
  "db2 = \<lparr>rows = (\<lambda>t. case t of TB_PROJETOS \<Rightarrow> [p1_row] | TB_TAREFAS \<Rightarrow> [t1_row, t2_row]
                          | TB_USUARIOS \<Rightarrow> [ana_row]),
          sqlite_sequence = (\<lambda>t. case t of TB_TAREFAS \<Rightarrow> 2 | _ \<Rightarrow> 1)\<rparr>"

definition world2 :: world where
  "world2 = \<lparr>db = db2, api_log = [], db_trace = []\<rparr>"

text \<open>Request bodies.\<close>

definition projeto_p1 :: "(str \<times> json) list" where
  "projeto_p1 =
     [(ascii ''nome'', JStr (ascii ''P1'')), (ascii ''descricao'', JStr (ascii ''d'')),
      (ascii ''data_inicio'', JStr (ascii ''2024-01-01'')),
      (ascii ''data_fim'', JStr (ascii ''2024-02-01''))]"

definition projeto_so_nome :: "(str \<times> json) list" where
  "projeto_so_nome = [(ascii ''nome'', JStr (ascii ''P1''))]"

definition tarefa_t1 :: "(str \<times> json) list" where
  "tarefa_t1 =
     [(ascii ''titulo'', JStr (ascii ''T1'')), (ascii ''descricao'', JStr (ascii ''d'')),
      (ascii ''status'', JStr (ascii ''Pendente'')), (ascii ''prioridade'', JStr (ascii ''Alta'')),
      (ascii ''data_vencimento'', JStr (ascii ''2024-03-01'')),
      (ascii ''projeto_id'', JInt 1), (ascii ''responsavel_id'', JInt 1)]"

definition usuario_ana :: "(str \<times> json) list" where
  "usuario_ana =
     [(ascii ''nome'', JStr (ascii ''Ana'')), (ascii ''email'', JStr (ascii ''ana@example.com'')),
      (ascii ''senha'', JStr (ascii ''segredo1''))]"

definition usuario_bia :: "(str \<times> json) list" where
  "usuario_bia =
     [(ascii ''nome'', JStr (ascii ''Bia'')), (ascii ''email'', JStr (ascii ''bia@example.com'')),
      (ascii ''senha'', JStr (ascii ''segredo2''))]"

definition usuario_invalido :: "(str \<times> json) list" where
  "usuario_invalido =
     [(ascii ''nome'', JStr (ascii ''A'')), (ascii ''email'', JStr (ascii ''not-an-email'')),
      (ascii ''senha'', JStr (ascii ''123''))]"

definition usuario_bia_com_id :: "(str \<times> json) list" where
  "usuario_bia_com_id = (ascii ''id'', JInt 7) # usuario_bia"

definition tarefa_status_minusculo :: "(str \<times> json) list" where
  "tarefa_status_minusculo =
     [(ascii ''titulo'', JStr (ascii ''T1'')), (ascii ''status'', JStr (ascii ''pendente''))]"



section \<open>Vocabulary of the properties\<close>

text \<open>The schema each entity's create and update handlers instantiate.\<close>

fun schema_of :: "entity \<Rightarrow> field list" where
  "schema_of Projeto = ProjetoSchema"
| "schema_of Tarefa = TarefaSchema"
| "schema_of Usuario = UsuarioSchema"

text \<open>The statements among the events of a trace, in order.\<close>

fun statements :: "db_event list \<Rightarrow> stmt list" where
  "statements [] = []"
| "statements (Execute s # evs) = s # statements evs"
| "statements (ev # evs) = statements evs"

text \<open>What a handler added to the trace of the world it started in.\<close>

definition new_events :: "world \<Rightarrow> world \<Rightarrow> db_event list" where
  "new_events w w' = drop (length (db_trace w)) (db_trace w')"

text \<open>The entity a request is about; the welcome route is about none.\<close>

fun request_entity :: "request \<Rightarrow> entity option" where
  "request_entity (HTTP_GET e) = Some e"
| "request_entity (HTTP_POST e body) = Some e"
| "request_entity (HTTP_PUT e i body) = Some e"
| "request_entity (HTTP_DELETE e i) = Some e"
| "request_entity HTTP_GET_root = None"

fun is_success :: "outcome \<Rightarrow> bool" where
  "is_success (Response st b) = (200 \<le> st \<and> st < 300)"
| "is_success (Raised e) = False"

text \<open>
  A user payload has a malformed email when the key is present and its value is not a
  string that \<open>validate.Email\<close> accepts, and a short password when the value of
  \<open>senha\<close> is a string of fewer than six characters.
\<close>

definition malformed_email :: "lib \<Rightarrow> (str \<times> json) list \<Rightarrow> bool" where
  "malformed_email L kvs =
     (case map_of kvs (ascii ''email'') of
        None \<Rightarrow> False
      | Some (JStr s) \<Rightarrow> \<not> Email_ok L s
      | Some v \<Rightarrow> True)"

definition short_senha :: "(str \<times> json) list \<Rightarrow> bool" where
  "short_senha kvs =
     (case map_of kvs (ascii ''senha'') of Some (JStr s) \<Rightarrow> length s < 6 | _ \<Rightarrow> False)"

text \<open>
  A validated value can be stored when binding it does not fail: a string that can be
  encoded, an integer in the signed 64-bit range, any date.
\<close>

fun storable :: "pyval \<Rightarrow> bool" where
  "storable (PyStr s) = encodable s"
| "storable (PyInt i) = sqlite_int i"
| "storable (PyDate d) = True"


text \<open>Three field declarations of \<open>schemas.py\<close>, by name.\<close>

definition status_field :: field where
  "status_field =
     \<lparr>attr = ascii ''status'', kind = fields_String, required = False, dump_only = False,
      validate = [validate_OneOf status_choices]\<rparr>"

definition email_field :: field where
  "email_field =
     \<lparr>attr = ascii ''email'', kind = fields_Email, required = True, dump_only = False,
      validate = []\<rparr>"

definition senha_field :: field where
  "senha_field =
     \<lparr>attr = ascii ''senha'', kind = fields_String, required = True, dump_only = False,
      validate = [validate_Length (Some 6) None]\<rparr>"

text \<open>The declaration of \<open>nome\<close> in \<open>UsuarioSchema\<close> (and in \<open>ProjetoSchema\<close>).\<close>

definition nome_field :: field where
  "nome_field =
     \<lparr>attr = ascii ''nome'', kind = fields_String, required = True, dump_only = False,
      validate = [Length_1_255]\<rparr>"

text \<open>
  A handler result \<open>r\<close> from world \<open>w\<close> stays within table \<open>t\<close>: it executed at most
  one statement, any statement it executed is on \<open>t\<close>, a success executed exactly
  one, and the rows of every other table are as they were.
\<close>

definition one_table :: "table \<Rightarrow> world \<Rightarrow> world \<times> outcome \<Rightarrow> bool" where
  "one_table t w r =
     (length (statements (new_events w (fst r))) \<le> 1
      \<and> (\<forall>s \<in> set (statements (new_events w (fst r))). stmt_table s = t)
      \<and> (is_success (snd r) \<longrightarrow> length (statements (new_events w (fst r))) = 1)
      \<and> (\<forall>t'. t' \<noteq> t \<longrightarrow> rows (db (fst r)) t' = rows (db w) t'))"

section \<open>Basic facts\<close>

lemma ascii_eq_iff [simp]: "ascii s = ascii t \<longleftrightarrow> s = t"
  unfolding ascii_def using inj_of_char by (simp add: inj_map_eq_map inj_def)

lemma length_ascii [simp]: "length (ascii s) = length s"
  by (simp add: ascii_def)

text \<open>\<open>Schema.load\<close> raises nothing but \<open>ValidationError\<close>, with a dict that is not empty.\<close>

lemma load_Inl: "load L schema body = Inl e \<Longrightarrow> \<exists>msgs. e = ValidationError msgs \<and> msgs \<noteq> []"
  by (auto simp: load_def split: json.splits list.splits)

lemma try_load_Inr: "load L schema body = Inr dados \<Longrightarrow> try_load L schema w body = Inr dados"
  by (simp add: try_load_def)

text \<open>
  When the load raises, each of the six create and update handlers logs the error dict
  and returns it with 400; nothing else of the world changes.
\<close>

lemma handle_invalid:
  assumes "req = HTTP_POST e body \<or> req = HTTP_PUT e i body"
    and "load L (schema_of e) body = Inl (ValidationError msgs)"
  shows "handle L w req =
           (w\<lparr>api_log := api_log w @ [Erro_de_validacao msgs]\<rparr>, Response 400 (Errors msgs))"
  using assms
  by (cases e) (auto simp: try_load_def criar_projeto_def atualizar_projeto_def criar_tarefa_def
      atualizar_tarefa_def criar_usuario_def atualizar_usuario_def)

text \<open>How an entry gets into the error dict, and that one entry makes the load raise.\<close>

lemma field_error_entry:
  assumes "f \<in> set (load_fields schema)"
    and "deserialize L f (map_of kvs (attr f)) = Inl ms"
  shows "(attr f, ms) \<in> set (field_errors L schema kvs)"
  using assms unfolding field_errors_def by (force split: sum.splits)

lemma unknown_error_entry:
  assumes "k \<in> fst ` set kvs" and "k \<notin> set (map attr (load_fields schema))"
  shows "(k, [Unknown_field]) \<in> set (unknown_errors schema kvs)"
  using assms unfolding unknown_errors_def by force

lemma load_raises:
  assumes "x \<in> set (field_errors L schema kvs @ unknown_errors schema kvs)"
  shows "load L schema (JObj kvs) =
           Inl (ValidationError (field_errors L schema kvs @ unknown_errors schema kvs))"
  using assms unfolding load_def by (cases "field_errors L schema kvs @ unknown_errors schema kvs") auto

lemma field_rejected:
  assumes "f \<in> set (load_fields schema)"
    and "deserialize L f (map_of kvs (attr f)) = Inl ms"
  shows "\<exists>msgs. load L schema (JObj kvs) = Inl (ValidationError msgs) \<and> (attr f, ms) \<in> set msgs"
proof -
  from field_error_entry[OF assms]
  have e: "(attr f, ms) \<in> set (field_errors L schema kvs @ unknown_errors schema kvs)"
    by simp
  from load_raises[OF e] e show ?thesis by blast
qed

lemma status_field_rejects:
  assumes "v \<notin> JStr ` set status_choices"
  shows "\<exists>ms. deserialize L status_field (Some v) = Inl ms"
  using assms by (cases v) (auto simp: deserialize_def status_field_def validators_of_def)

lemma status_field_load: "status_field \<in> set (load_fields TarefaSchema)"
  by (simp add: load_fields_def TarefaSchema_def status_field_def)

lemma email_field_load: "email_field \<in> set (load_fields UsuarioSchema)"
  by (simp add: load_fields_def UsuarioSchema_def email_field_def)

lemma senha_field_load: "senha_field \<in> set (load_fields UsuarioSchema)"
  by (simp add: load_fields_def UsuarioSchema_def senha_field_def)

lemma email_field_rejects:
  assumes "malformed_email L kvs"
  shows "\<exists>ms. deserialize L email_field (map_of kvs (attr email_field)) = Inl ms"
proof -
  from assms obtain v where v: "map_of kvs (ascii ''email'') = Some v"
    by (auto simp: malformed_email_def split: option.splits)
  with assms have "\<exists>ms. deserialize L email_field (Some v) = Inl ms"
    by (cases v) (auto simp: malformed_email_def deserialize_def email_field_def validators_of_def)
  with v show ?thesis by (simp add: email_field_def)
qed

lemma senha_field_rejects:
  assumes "short_senha kvs"
  shows "\<exists>ms. deserialize L senha_field (map_of kvs (attr senha_field)) = Inl ms"
  using assms
  by (auto simp: short_senha_def deserialize_def senha_field_def validators_of_def
      split: option.splits json.splits)

lemma id_not_load_field: "ascii ''id'' \<notin> set (map attr (load_fields (schema_of e)))"
  by (cases e) (simp_all add: load_fields_def ProjetoSchema_def TarefaSchema_def UsuarioSchema_def)

lemma field_errors_keys: "fst ` set (field_errors L schema kvs) \<subseteq> set (map attr (load_fields schema))"
  unfolding field_errors_def by (auto split: sum.splits)

lemma unknown_errors_keys: "fst ` set (unknown_errors schema kvs) \<subseteq> fst ` set kvs"
  unfolding unknown_errors_def by force

section \<open>Validation failure\<close>

text \<open>
  Claim C10. For every create or update request whose body fails validation, the
  handler returns HTTP 400 before any database connection is opened: the response is
  400 with the error dict, the store after the request is the store before it, and the
  trace of connection events has not grown.
\<close>

theorem validation_failure_changes_nothing:
  assumes "req = HTTP_POST e body \<or> req = HTTP_PUT e i body"
    and "isl (load L (schema_of e) body)"
  shows "(\<exists>msgs. snd (handle L w req) = Response 400 (Errors msgs))
       \<and> db (fst (handle L w req)) = db w
       \<and> db_trace (fst (handle L w req)) = db_trace w"
proof -
  from assms(2) obtain err where "load L (schema_of e) body = Inl err"
    by (cases "load L (schema_of e) body") auto
  then obtain msgs where "load L (schema_of e) body = Inl (ValidationError msgs)"
    using load_Inl by blast
  from handle_invalid[OF assms(1) this] show ?thesis by simp
qed

theorem validation_failure_changes_nothing_witness:
  "isl (load ascii_lib (schema_of Usuario) (JObj usuario_invalido))
   \<and> (\<exists>msgs. snd (handle ascii_lib world1 (HTTP_POST Usuario (JObj usuario_invalido)))
               = Response 400 (Errors msgs))
   \<and> db (fst (handle ascii_lib world1 (HTTP_POST Usuario (JObj usuario_invalido)))) = db world1
   \<and> db_trace (fst (handle ascii_lib world1 (HTTP_POST Usuario (JObj usuario_invalido))))
       = db_trace world1"
proof -
  have bad: "isl (load ascii_lib (schema_of Usuario) (JObj usuario_invalido))"
    by code_simp
  have "HTTP_POST Usuario (JObj usuario_invalido) = HTTP_POST Usuario (JObj usuario_invalido)
        \<or> HTTP_POST Usuario (JObj usuario_invalido) = HTTP_PUT Usuario 0 (JObj usuario_invalido)"
    by simp
  from validation_failure_changes_nothing[OF this bad, of world1] bad show ?thesis
    by blast
qed

text \<open>
  Claim C7. For every task payload whose \<open>status\<close> value is not one of the allowed
  status strings (equality of strings, so a different case is a different value),
  create returns HTTP 400 with an error entry for \<open>status\<close>, and the store is
  unchanged: no row is inserted.
\<close>

theorem status_outside_allowed_set_is_rejected:
  assumes "map_of kvs (ascii ''status'') = Some v" and "v \<notin> JStr ` set status_choices"
  shows "(\<exists>msgs. snd (handle L w (HTTP_POST Tarefa (JObj kvs))) = Response 400 (Errors msgs)
                 \<and> ascii ''status'' \<in> fst ` set msgs)
       \<and> db (fst (handle L w (HTTP_POST Tarefa (JObj kvs)))) = db w"
proof -
  obtain ms where "deserialize L status_field (Some v) = Inl ms"
    using status_field_rejects[OF assms(2)] by blast
  with assms(1) have "deserialize L status_field (map_of kvs (attr status_field)) = Inl ms"
    by (simp add: status_field_def)
  from field_rejected[OF status_field_load this]
  obtain msgs where l: "load L (schema_of Tarefa) (JObj kvs) = Inl (ValidationError msgs)"
    and m: "(ascii ''status'', ms) \<in> set msgs"
    by (auto simp: status_field_def)
  have "HTTP_POST Tarefa (JObj kvs) = HTTP_POST Tarefa (JObj kvs)
        \<or> HTTP_POST Tarefa (JObj kvs) = HTTP_PUT Tarefa 0 (JObj kvs)" by simp
  from handle_invalid[OF this l, of w] m show ?thesis by force
qed

theorem status_outside_allowed_set_is_rejected_witness:
  "map_of tarefa_status_minusculo (ascii ''status'') = Some (JStr (ascii ''pendente''))
   \<and> JStr (ascii ''pendente'') \<notin> JStr ` set status_choices
   \<and> (\<exists>msgs. snd (handle ascii_lib world1 (HTTP_POST Tarefa (JObj tarefa_status_minusculo)))
                 = Response 400 (Errors msgs)
               \<and> ascii ''status'' \<in> fst ` set msgs)
   \<and> db (fst (handle ascii_lib world1 (HTTP_POST Tarefa (JObj tarefa_status_minusculo))))
       = db world1"
proof -
  have present: "map_of tarefa_status_minusculo (ascii ''status'') = Some (JStr (ascii ''pendente''))"
    by code_simp
  have outside: "JStr (ascii ''pendente'') \<notin> JStr ` set status_choices"
    by code_simp
  from status_outside_allowed_set_is_rejected[OF present outside, of ascii_lib world1]
    present outside
  show ?thesis by blast
qed

text \<open>
  Claim C6. For every user payload with a malformed email or a password shorter than
  six characters, create returns HTTP 400; the error dict has an entry for \<open>email\<close>
  when the email is malformed and an entry for \<open>senha\<close> when the password is short,
  hence both when both defects are present.
\<close>

theorem malformed_email_or_short_senha_is_rejected:
  assumes "malformed_email L kvs \<or> short_senha kvs"
  shows "\<exists>msgs. snd (handle L w (HTTP_POST Usuario (JObj kvs))) = Response 400 (Errors msgs)
               \<and> (malformed_email L kvs \<longrightarrow> ascii ''email'' \<in> fst ` set msgs)
               \<and> (short_senha kvs \<longrightarrow> ascii ''senha'' \<in> fst ` set msgs)"
proof -
  let ?errs = "field_errors L UsuarioSchema kvs @ unknown_errors UsuarioSchema kvs"
  have email: "ascii ''email'' \<in> fst ` set ?errs" if bad: "malformed_email L kvs"
  proof -
    obtain ms where "deserialize L email_field (map_of kvs (attr email_field)) = Inl ms"
      using email_field_rejects[OF bad] by blast
    from field_error_entry[OF email_field_load this] show ?thesis
      by (force simp: email_field_def)
  qed
  have senha: "ascii ''senha'' \<in> fst ` set ?errs" if bad: "short_senha kvs"
  proof -
    obtain ms where "deserialize L senha_field (map_of kvs (attr senha_field)) = Inl ms"
      using senha_field_rejects[OF bad] by blast
    from field_error_entry[OF senha_field_load this] show ?thesis
      by (force simp: senha_field_def)
  qed
  have "\<exists>x. x \<in> set ?errs"
    using assms
  proof
    assume "malformed_email L kvs"
    from email[OF this] show ?thesis by (meson imageE)
  next
    assume "short_senha kvs"
    from senha[OF this] show ?thesis by (meson imageE)
  qed
  then obtain x where "x \<in> set ?errs" ..
  from load_raises[OF this]
  have l: "load L (schema_of Usuario) (JObj kvs) = Inl (ValidationError ?errs)" by simp
  have "HTTP_POST Usuario (JObj kvs) = HTTP_POST Usuario (JObj kvs)
        \<or> HTTP_POST Usuario (JObj kvs) = HTTP_PUT Usuario 0 (JObj kvs)" by simp
  from handle_invalid[OF this l, of w] email senha show ?thesis by auto
qed

theorem malformed_email_or_short_senha_is_rejected_witness:
  "malformed_email ascii_lib usuario_invalido \<and> short_senha usuario_invalido
   \<and> (\<exists>msgs. snd (handle ascii_lib world0 (HTTP_POST Usuario (JObj usuario_invalido)))
                 = Response 400 (Errors msgs)
               \<and> ascii ''email'' \<in> fst ` set msgs \<and> ascii ''senha'' \<in> fst ` set msgs)"
proof -
  have email: "malformed_email ascii_lib usuario_invalido"
    by code_simp
  have senha: "short_senha usuario_invalido"
    by code_simp
  from malformed_email_or_short_senha_is_rejected[OF disjI1[OF email], of world0] email senha
  show ?thesis by blast
qed

section \<open>A body that carries an id\<close>

text \<open>
  Claim C3 says that an \<open>id\<close> in the body of a create or update request is ignored and
  the request processed as if it were absent. The schemas declare \<open>id\<close> as
  \<open>dump_only\<close>, which takes it out of the load fields, and a key that is no load field
  is an unknown field: the same user payload is created without the \<open>id\<close> and rejected
  with it.
\<close>

theorem body_with_id_counterexample:
  "snd (handle ascii_lib world1 (HTTP_POST Usuario (JObj usuario_bia)))
     = Response 201 (Mensagem (ascii ''Usu'' @ [225] @ ascii ''rio criado com sucesso!''))
   \<and> snd (handle ascii_lib world1 (HTTP_POST Usuario (JObj usuario_bia_com_id)))
     = Response 400 (Errors [(ascii ''id'', [Unknown_field])])"
  by code_simp

text \<open>
  Claim C3, amended. A create or update request whose body includes an \<open>id\<close> field
  is rejected: HTTP 400 with an unknown-field error for \<open>id\<close>, the store unchanged and
  no connection opened. The \<open>id\<close> is not required on input: for a body without it, no
  validation error is ever about \<open>id\<close>.
\<close>

theorem body_with_id_is_rejected:
  assumes "req = HTTP_POST e (JObj kvs) \<or> req = HTTP_PUT e i (JObj kvs)"
    and "ascii ''id'' \<in> fst ` set kvs"
  shows "(\<exists>msgs. snd (handle L w req) = Response 400 (Errors msgs)
                 \<and> (ascii ''id'', [Unknown_field]) \<in> set msgs)
       \<and> db (fst (handle L w req)) = db w
       \<and> db_trace (fst (handle L w req)) = db_trace w
       \<and> (\<forall>kvs' msgs. ascii ''id'' \<notin> fst ` set kvs'
             \<longrightarrow> load L (schema_of e) (JObj kvs') = Inl (ValidationError msgs)
             \<longrightarrow> ascii ''id'' \<notin> fst ` set msgs)"
proof -
  let ?errs = "field_errors L (schema_of e) kvs @ unknown_errors (schema_of e) kvs"
  from unknown_error_entry[OF assms(2) id_not_load_field]
  have e: "(ascii ''id'', [Unknown_field]) \<in> set ?errs" by simp
  from load_raises[OF e]
  have l: "load L (schema_of e) (JObj kvs) = Inl (ValidationError ?errs)" .
  have a: "req = HTTP_POST e (JObj kvs) \<or> req = HTTP_PUT e i (JObj kvs)" by fact
  have h: "handle L w req =
      (w\<lparr>api_log := api_log w @ [Erro_de_validacao ?errs]\<rparr>, Response 400 (Errors ?errs))"
    by (rule handle_invalid[OF a l])
  have notreq: "ascii ''id'' \<notin> fst ` set msgs"
    if "ascii ''id'' \<notin> fst ` set kvs'"
      and "load L (schema_of e) (JObj kvs') = Inl (ValidationError msgs)" for kvs' msgs
  proof -
    from that(2) have "msgs = field_errors L (schema_of e) kvs' @ unknown_errors (schema_of e) kvs'"
      by (auto simp: load_def split: list.splits)
    with field_errors_keys[of L "schema_of e" kvs'] unknown_errors_keys[of "schema_of e" kvs']
      id_not_load_field[of e] that(1)
    show ?thesis by auto
  qed
  from h e notreq show ?thesis by auto
qed

theorem body_with_id_is_rejected_witness:
  "ascii ''id'' \<in> fst ` set usuario_bia_com_id
   \<and> (\<exists>msgs. snd (handle ascii_lib world1 (HTTP_PUT Usuario 1 (JObj usuario_bia_com_id)))
                 = Response 400 (Errors msgs)
               \<and> (ascii ''id'', [Unknown_field]) \<in> set msgs)
   \<and> db (fst (handle ascii_lib world1 (HTTP_PUT Usuario 1 (JObj usuario_bia_com_id)))) = db world1"
proof -
  have has_id: "ascii ''id'' \<in> fst ` set usuario_bia_com_id"
    by code_simp
  have "HTTP_PUT Usuario 1 (JObj usuario_bia_com_id) = HTTP_POST Usuario (JObj usuario_bia_com_id)
        \<or> HTTP_PUT Usuario 1 (JObj usuario_bia_com_id) = HTTP_PUT Usuario 1 (JObj usuario_bia_com_id)"
    by simp
  from body_with_id_is_rejected[OF this has_id, of ascii_lib world1] has_id
  show ?thesis by blast
qed

section \<open>Delete\<close>

lemma handle_delete:
  assumes "sqlite_int i"
  shows "\<exists>m. handle L w (HTTP_DELETE e i) =
     (w\<lparr>db := (db w)\<lparr>rows := (rows (db w))(entity_table e :=
                 filter (\<lambda>r. fst r \<noteq> i) (rows (db w) (entity_table e)))\<rparr>,
        db_trace := db_trace w @ [Connect, Execute (DELETE (entity_table e) i), Commit, Close]\<rparr>,
      Response 200 (Mensagem m))"
  using assms
  by (cases e)
     (simp_all add: excluir_projeto_def excluir_tarefa_def excluir_usuario_def run_write_def
        get_db_connection_def DELETE_WHERE_id_def bind_id_def)

lemma delete_message_fixed:
  assumes "sqlite_int i" and "sqlite_int i'"
  shows "snd (handle L w (HTTP_DELETE e i)) = snd (handle L' w' (HTTP_DELETE e i'))"
  using assms
  by (cases e)
     (simp_all add: excluir_projeto_def excluir_tarefa_def excluir_usuario_def run_write_def
        get_db_connection_def DELETE_WHERE_id_def bind_id_def)

text \<open>
  Claim C5 says that for every identifier two deletes in succession both return a
  success response. The route takes any non-negative integer of the path as the
  identifier, and one beyond the signed 64-bit range of an SQLite integer cannot be
  bound to the statement: at two to the power 63 the handler raises \<open>OverflowError\<close>
  with the connection open, executes nothing and returns no response.
\<close>

theorem delete_is_idempotent_counterexample:
  "snd (handle ascii_lib world1 (HTTP_DELETE Usuario 9223372036854775808)) = Raised OverflowError
   \<and> db_trace (fst (handle ascii_lib world1 (HTTP_DELETE Usuario 9223372036854775808))) = [Connect]
   \<and> rows (db (fst (handle ascii_lib world1 (HTTP_DELETE Usuario 9223372036854775808)))) TB_USUARIOS
       = [ana_row]"
  by code_simp

text \<open>
  Claim C5, amended. Delete is idempotent in effect for every identifier in the signed
  64-bit range of an SQLite integer: two deletes in succession both return the same 200
  response, after the first no row of the table has the identifier, and the second
  leaves the store as the first left it.
\<close>

theorem delete_is_idempotent:
  assumes "sqlite_int i"
  shows "(\<exists>m. snd (handle L w (HTTP_DELETE e i)) = Response 200 (Mensagem m)
        \<and> snd (handle L (fst (handle L w (HTTP_DELETE e i))) (HTTP_DELETE e i))
            = Response 200 (Mensagem m))
   \<and> i \<notin> fst ` set (rows (db (fst (handle L w (HTTP_DELETE e i)))) (entity_table e))
   \<and> db (fst (handle L (fst (handle L w (HTTP_DELETE e i))) (HTTP_DELETE e i)))
       = db (fst (handle L w (HTTP_DELETE e i)))"
proof -
  obtain m where first: "handle L w (HTTP_DELETE e i) =
     (w\<lparr>db := (db w)\<lparr>rows := (rows (db w))(entity_table e :=
                 filter (\<lambda>r. fst r \<noteq> i) (rows (db w) (entity_table e)))\<rparr>,
        db_trace := db_trace w @ [Connect, Execute (DELETE (entity_table e) i), Commit, Close]\<rparr>,
      Response 200 (Mensagem m))"
    using handle_delete[OF assms] by blast
  define w1 where "w1 = fst (handle L w (HTTP_DELETE e i))"
  obtain m' where second: "handle L w1 (HTTP_DELETE e i) =
     (w1\<lparr>db := (db w1)\<lparr>rows := (rows (db w1))(entity_table e :=
                 filter (\<lambda>r. fst r \<noteq> i) (rows (db w1) (entity_table e)))\<rparr>,
        db_trace := db_trace w1 @ [Connect, Execute (DELETE (entity_table e) i), Commit, Close]\<rparr>,
      Response 200 (Mensagem m'))"
    using handle_delete[OF assms] by blast
  have same: "snd (handle L w1 (HTTP_DELETE e i)) = snd (handle L w (HTTP_DELETE e i))"
    by (rule delete_message_fixed[OF assms assms])
  have rows1: "rows (db w1) (entity_table e) = filter (\<lambda>r. fst r \<noteq> i) (rows (db w) (entity_table e))"
    by (simp add: w1_def first)
  have gone: "i \<notin> fst ` set (rows (db w1) (entity_table e))"
    by (auto simp: rows1)
  have "filter (\<lambda>r. fst r \<noteq> i) (rows (db w1) (entity_table e)) = rows (db w1) (entity_table e)"
    by (simp add: rows1)
  then have "db (fst (handle L w1 (HTTP_DELETE e i))) = db w1"
    by (simp add: second)
  with same gone first show ?thesis
    unfolding w1_def by simp
qed

theorem delete_is_idempotent_witness:
  "sqlite_int 1
   \<and> rows (db world1) TB_USUARIOS = [ana_row]
   \<and> rows (db (fst (handle ascii_lib world1 (HTTP_DELETE Usuario 1)))) TB_USUARIOS = []
   \<and> 1 \<notin> fst ` set (rows (db (fst (handle ascii_lib world1 (HTTP_DELETE Usuario 1))))
                       (entity_table Usuario))
   \<and> db (fst (handle ascii_lib (fst (handle ascii_lib world1 (HTTP_DELETE Usuario 1)))
                 (HTTP_DELETE Usuario 1)))
       = db (fst (handle ascii_lib world1 (HTTP_DELETE Usuario 1)))"
proof -
  have range: "sqlite_int 1"
    by (simp add: sqlite_int_def)
  have before: "rows (db world1) TB_USUARIOS = [ana_row]"
    by code_simp
  have after: "rows (db (fst (handle ascii_lib world1 (HTTP_DELETE Usuario 1)))) TB_USUARIOS = []"
    by code_simp
  from delete_is_idempotent[OF range, of ascii_lib world1 Usuario] range before after
  show ?thesis by simp
qed

section \<open>List\<close>

lemma distinct_columns: "distinct (columns t)"
  by (cases t) (simp_all add: columns_def)

lemma id_not_column: "ascii ''id'' \<notin> set (columns t)"
  by (cases t) (simp_all add: columns_def)

text \<open>What the field-map of a row holds: the id, and under each column its stored value.\<close>

lemma dict_of_row_id: "map_of (dict_of_row t r) (ascii ''id'') = Some (JInt (fst r))"
  by (simp add: dict_of_row_def)

lemma dict_of_row_keys:
  assumes "length (snd r) = length (columns t)"
  shows "map fst (dict_of_row t r) = ascii ''id'' # columns t"
  using assms by (simp add: dict_of_row_def)

lemma dict_of_row_column:
  assumes len: "length (snd r) = length (columns t)" and k: "k < length (columns t)"
  shows "map_of (dict_of_row t r) (columns t ! k)
           = Some (case snd r ! k of NULL \<Rightarrow> JNull | INTEGER i \<Rightarrow> JInt i | TEXT s \<Rightarrow> JStr s)"
proof -
  from k have "columns t ! k \<in> set (columns t)" by (rule nth_mem)
  with id_not_column[of t] have ne: "columns t ! k \<noteq> ascii ''id''" by metis
  have "map_of (zip (columns t) (map json_of_sqlval (snd r))) (columns t ! k)
          = Some (map json_of_sqlval (snd r) ! k)"
    using len k by (intro map_of_zip_nth) (simp_all add: distinct_columns)
  also have "map json_of_sqlval (snd r) ! k = json_of_sqlval (snd r ! k)"
    using len k by simp
  also have "\<dots> = (case snd r ! k of NULL \<Rightarrow> JNull | INTEGER i \<Rightarrow> JInt i | TEXT s \<Rightarrow> JStr s)"
    by (cases "snd r ! k") simp_all
  finally show ?thesis using ne by (simp add: dict_of_row_def)
qed

lemma list_after:
  "snd (handle L w (HTTP_GET e))
     = Response 200 (Records (map (dict_of_row (entity_table e)) (rows (db w) (entity_table e))))"
  by (cases e)
     (simp_all add: listar_projetos_def listar_tarefas_def listar_usuarios_def run_select_def
        get_db_connection_def)

lemma list_keeps_db: "db (fst (handle L w (HTTP_GET e))) = db w"
  by (cases e)
     (simp_all add: listar_projetos_def listar_tarefas_def listar_usuarios_def run_select_def
        get_db_connection_def)

text \<open>
  Claim C8. For every state of the store, the list operation of each entity returns
  HTTP 200 with an array that has one field-map per row of that entity's table: as many
  entries as rows, and the entry at each position is the field-map of the row at that
  position. It gives the row's id under \<open>id\<close> and, for a row that has a value for each
  column, exactly the keys \<open>id\<close> and the columns, with under each column the stored
  value: \<open>null\<close> for \<open>NULL\<close>, the number for an integer, the string for a text.
  Nothing is filtered out, cut off or reordered, and the store is unchanged.
\<close>

theorem list_returns_every_row:
  "(\<exists>rs. snd (handle L w (HTTP_GET e)) = Response 200 (Records rs)
         \<and> length rs = length (rows (db w) (entity_table e))
         \<and> (\<forall>n < length (rows (db w) (entity_table e)).
               map_of (rs ! n) (ascii ''id'') = Some (JInt (fst (rows (db w) (entity_table e) ! n)))
             \<and> (length (snd (rows (db w) (entity_table e) ! n)) = length (columns (entity_table e))
                 \<longrightarrow> map fst (rs ! n) = ascii ''id'' # columns (entity_table e)
                   \<and> (\<forall>k < length (columns (entity_table e)).
                        map_of (rs ! n) (columns (entity_table e) ! k)
                          = Some (case snd (rows (db w) (entity_table e) ! n) ! k of
                                    NULL \<Rightarrow> JNull | INTEGER i \<Rightarrow> JInt i | TEXT s \<Rightarrow> JStr s)))))
   \<and> db (fst (handle L w (HTTP_GET e))) = db w"
proof -
  let ?t = "entity_table e"
  let ?rs = "map (dict_of_row ?t) (rows (db w) ?t)"
  have "snd (handle L w (HTTP_GET e)) = Response 200 (Records ?rs)"
    by (rule list_after)
  moreover have "length ?rs = length (rows (db w) ?t)"
    by simp
  moreover have "\<forall>n < length (rows (db w) ?t).
               map_of (?rs ! n) (ascii ''id'') = Some (JInt (fst (rows (db w) ?t ! n)))
             \<and> (length (snd (rows (db w) ?t ! n)) = length (columns ?t)
                 \<longrightarrow> map fst (?rs ! n) = ascii ''id'' # columns ?t
                   \<and> (\<forall>k < length (columns ?t).
                        map_of (?rs ! n) (columns ?t ! k)
                          = Some (case snd (rows (db w) ?t ! n) ! k of
                                    NULL \<Rightarrow> JNull | INTEGER i \<Rightarrow> JInt i | TEXT s \<Rightarrow> JStr s)))"
    by (simp add: dict_of_row_id dict_of_row_keys dict_of_row_column)
  ultimately show ?thesis
    using list_keeps_db[of L w e] by blast
qed

theorem list_returns_every_row_witness:
  "snd (handle ascii_lib world2 (HTTP_GET Tarefa))
     = Response 200 (Records
         [[(ascii ''id'', JInt 1), (ascii ''titulo'', JStr (ascii ''T1'')),
           (ascii ''descricao'', JStr (ascii ''d'')), (ascii ''status'', JStr (ascii ''Pendente'')),
           (ascii ''prioridade'', JStr (ascii ''Alta'')),
           (ascii ''data_vencimento'', JStr (ascii ''2024-03-01'')),
           (ascii ''projeto_id'', JInt 1), (ascii ''responsavel_id'', JInt 1)],
          [(ascii ''id'', JInt 2), (ascii ''titulo'', JStr (ascii ''T2'')),
           (ascii ''descricao'', JNull), (ascii ''status'', JStr (ascii ''Pendente'')),
           (ascii ''prioridade'', JNull), (ascii ''data_vencimento'', JNull),
           (ascii ''projeto_id'', JInt 1), (ascii ''responsavel_id'', JNull)]])
   \<and> rows (db world2) (entity_table Tarefa) = [t1_row, t2_row]
   \<and> db (fst (handle ascii_lib world2 (HTTP_GET Tarefa))) = db world2"
proof -
  have listed: "snd (handle ascii_lib world2 (HTTP_GET Tarefa))
     = Response 200 (Records
         [[(ascii ''id'', JInt 1), (ascii ''titulo'', JStr (ascii ''T1'')),
           (ascii ''descricao'', JStr (ascii ''d'')), (ascii ''status'', JStr (ascii ''Pendente'')),
           (ascii ''prioridade'', JStr (ascii ''Alta'')),
           (ascii ''data_vencimento'', JStr (ascii ''2024-03-01'')),
           (ascii ''projeto_id'', JInt 1), (ascii ''responsavel_id'', JInt 1)],
          [(ascii ''id'', JInt 2), (ascii ''titulo'', JStr (ascii ''T2'')),
           (ascii ''descricao'', JNull), (ascii ''status'', JStr (ascii ''Pendente'')),
           (ascii ''prioridade'', JNull), (ascii ''data_vencimento'', JNull),
           (ascii ''projeto_id'', JInt 1), (ascii ''responsavel_id'', JNull)]])"
    by code_simp
  have stored: "rows (db world2) (entity_table Tarefa) = [t1_row, t2_row]"
    by code_simp
  from list_returns_every_row[of ascii_lib world2 Tarefa] listed stored
  show ?thesis by simp
qed

section \<open>One statement, one table\<close>

lemma execute_frame:
  assumes "execute d s = Inr (d', rs)" and "t \<noteq> stmt_table s"
  shows "rows d' t = rows d t"
  using assms by (cases s) (auto split: option.splits if_splits)

lemma new_events_log [simp]: "new_events w (w\<lparr>api_log := l\<rparr>) = []"
  by (simp add: new_events_def)

lemma new_events_connect [simp]: "new_events w (get_db_connection w) = [Connect]"
  by (simp add: new_events_def get_db_connection_def)

lemma db_get_db_connection [simp]: "db (get_db_connection w) = db w"
  by (simp add: get_db_connection_def)

lemma run_write_trace:
  "new_events w (fst (run_write (get_db_connection w) call st m)) =
     (case call of
        Inl e \<Rightarrow> [Connect]
      | Inr s \<Rightarrow> Connect # Execute s # (if isl (execute (db w) s) then [] else [Commit, Close]))"
  by (auto simp: new_events_def get_db_connection_def run_write_def split: sum.splits)

lemma run_write_frame:
  assumes "\<And>s. call = Inr s \<Longrightarrow> t \<noteq> stmt_table s"
  shows "rows (db (fst (run_write (get_db_connection w) call st m))) t = rows (db w) t"
proof (cases call)
  case (Inl e)
  then show ?thesis by (simp add: run_write_def)
next
  case (Inr s)
  with assms have "t \<noteq> stmt_table s" by simp
  with Inr execute_frame[of "db w" s _ _ t] show ?thesis
    by (auto simp: get_db_connection_def run_write_def split: sum.splits)
qed

lemma run_write_success:
  assumes "is_success (snd (run_write w call st m))"
  shows "\<exists>s. call = Inr s \<and> \<not> isl (execute (db w) s)"
  using assms by (auto simp: run_write_def split: sum.splits)

lemma run_select_trace:
  "new_events w (fst (run_select (get_db_connection w) t)) = [Connect, Execute (SELECT_ALL t), Close]"
  by (simp add: new_events_def get_db_connection_def run_select_def)

lemma run_select_db: "db (fst (run_select (get_db_connection w) t)) = db w"
  by (simp add: get_db_connection_def run_select_def)

lemma one_table_write:
  assumes "\<And>s. call = Inr s \<Longrightarrow> stmt_table s = t"
  shows "one_table t w (run_write (get_db_connection w) call st m)"
proof (cases call)
  case (Inl e)
  then show ?thesis by (simp add: one_table_def run_write_trace run_write_def)
next
  case (Inr s)
  with assms have t: "stmt_table s = t" by simp
  have "rows (db (fst (run_write (get_db_connection w) call st m))) t' = rows (db w) t'"
    if "t' \<noteq> t" for t'
    using that t Inr by (intro run_write_frame) auto
  with Inr t show ?thesis
    by (auto simp: one_table_def run_write_trace)
qed

lemma INSERT_INTO_table: "INSERT_INTO t params = Inr s \<Longrightarrow> stmt_table s = t"
  by (auto simp: INSERT_INTO_def split: sum.splits)

lemma UPDATE_WHERE_id_table: "UPDATE_WHERE_id t params i = Inr s \<Longrightarrow> stmt_table s = t"
  by (auto simp: UPDATE_WHERE_id_def split: sum.splits)

lemma DELETE_WHERE_id_table: "DELETE_WHERE_id t i = Inr s \<Longrightarrow> stmt_table s = t"
  by (auto simp: DELETE_WHERE_id_def split: sum.splits)

lemma one_table_insert: "one_table t w (run_write (get_db_connection w) (INSERT_INTO t params) st m)"
  by (rule one_table_write) (rule INSERT_INTO_table)

lemma one_table_update:
  "one_table t w (run_write (get_db_connection w) (UPDATE_WHERE_id t params i) st m)"
  by (rule one_table_write) (rule UPDATE_WHERE_id_table)

lemma one_table_delete: "one_table t w (run_write (get_db_connection w) (DELETE_WHERE_id t i) st m)"
  by (rule one_table_write) (rule DELETE_WHERE_id_table)

lemma one_table_select: "one_table t w (run_select (get_db_connection w) t)"
  by (simp add: one_table_def run_select_trace run_select_db)

lemma one_table_raise: "one_table t w (get_db_connection w, Raised e)"
  by (simp add: one_table_def)

lemma try_load_Inl_shape:
  assumes "try_load L schema w body = Inl r"
  shows "\<exists>msgs. r = (w\<lparr>api_log := api_log w @ [Erro_de_validacao msgs]\<rparr>, Response 400 (Errors msgs))"
  using assms load_Inl[of L schema body]
  by (auto simp: try_load_def split: sum.splits exn.splits)

lemma one_table_invalid:
  assumes "try_load L schema w body = Inl r"
  shows "one_table t w r"
  using try_load_Inl_shape[OF assms] by (auto simp: one_table_def)

lemma one_table_handle:
  assumes "request_entity req = Some e"
  shows "one_table (entity_table e) w (handle L w req)"
proof (cases req)
  case (HTTP_GET e')
  with assms show ?thesis
    by (cases e') (auto simp: listar_projetos_def listar_tarefas_def listar_usuarios_def one_table_select)
next
  case (HTTP_POST e' body)
  with assms show ?thesis
    by (cases e')
       (auto simp: criar_projeto_def criar_tarefa_def criar_usuario_def one_table_insert
          one_table_raise one_table_invalid split: sum.splits)
next
  case (HTTP_PUT e' i body)
  with assms show ?thesis
    by (cases e')
       (auto simp: atualizar_projeto_def atualizar_tarefa_def atualizar_usuario_def one_table_update
          one_table_raise one_table_invalid split: sum.splits)
next
  case (HTTP_DELETE e' i)
  with assms show ?thesis
    by (cases e')
       (auto simp: excluir_projeto_def excluir_tarefa_def excluir_usuario_def one_table_delete)
next
  case HTTP_GET_root
  with assms show ?thesis by simp
qed

text \<open>
  Claim C9 says that every request handler executes exactly one SQL statement. A create
  handler whose body fails validation returns before it executes any, and the welcome
  route never executes one.
\<close>

theorem exactly_one_statement_counterexample:
  "length (statements (new_events world1 (fst (handle ascii_lib world1 (HTTP_POST Projeto JNull)))))
     \<noteq> 1
   \<and> length (statements (new_events world1 (fst (handle ascii_lib world1 HTTP_GET_root)))) \<noteq> 1"
  by code_simp

text \<open>
  Claim C9, amended. Every request handler of an entity executes at most one SQL
  statement, exactly one when it answers with a success, and only on its own entity's
  table; so any operation on one entity leaves the rows of the other two tables as they
  were.
\<close>

theorem handler_touches_one_table:
  assumes "request_entity req = Some e"
  shows "length (statements (new_events w (fst (handle L w req)))) \<le> 1
       \<and> (\<forall>s \<in> set (statements (new_events w (fst (handle L w req)))).
             stmt_table s = entity_table e)
       \<and> (is_success (snd (handle L w req))
             \<longrightarrow> length (statements (new_events w (fst (handle L w req)))) = 1)
       \<and> (\<forall>t. t \<noteq> entity_table e
             \<longrightarrow> rows (db (fst (handle L w req))) t = rows (db w) t)"
  using one_table_handle[OF assms, of w L] unfolding one_table_def by blast

theorem handler_touches_one_table_witness:
  "request_entity (HTTP_POST Projeto (JObj projeto_p1)) = Some Projeto
   \<and> statements (new_events world1 (fst (handle ascii_lib world1 (HTTP_POST Projeto (JObj projeto_p1)))))
       = [INSERT TB_PROJETOS [TEXT (ascii ''P1''), TEXT (ascii ''d''), TEXT (ascii ''2024-01-01''),
                              TEXT (ascii ''2024-02-01'')]]
   \<and> rows (db (fst (handle ascii_lib world1 (HTTP_POST Projeto (JObj projeto_p1))))) TB_TAREFAS
       = rows (db world1) TB_TAREFAS
   \<and> rows (db (fst (handle ascii_lib world1 (HTTP_POST Projeto (JObj projeto_p1))))) TB_USUARIOS
       = rows (db world1) TB_USUARIOS"
proof -
  have about: "request_entity (HTTP_POST Projeto (JObj projeto_p1)) = Some Projeto"
    by simp
  have stmts: "statements (new_events world1
                 (fst (handle ascii_lib world1 (HTTP_POST Projeto (JObj projeto_p1)))))
       = [INSERT TB_PROJETOS [TEXT (ascii ''P1''), TEXT (ascii ''d''), TEXT (ascii ''2024-01-01''),
                              TEXT (ascii ''2024-02-01'')]]"
    by code_simp
  have others: "TB_TAREFAS \<noteq> entity_table Projeto" "TB_USUARIOS \<noteq> entity_table Projeto"
    by simp_all
  from handler_touches_one_table[OF about, of world1 ascii_lib] about stmts others
  show ?thesis by blast
qed

section \<open>Create, then list\<close>

text \<open>
  What a successful load returns: no error entry, and under the name of each load field
  whose key is in the input, the deserialised value.
\<close>

lemma deserialize_present:
  assumes "deserialize L f (Some raw) = Inr r"
  shows "\<exists>v. r = Some v"
  using assms by (auto simp: deserialize_def split: json.splits sum.splits list.splits)

lemma load_Inr:
  assumes "load L schema (JObj kvs) = Inr dados"
  shows "dados = loaded L schema kvs \<and> field_errors L schema kvs = []
         \<and> unknown_errors schema kvs = []"
  using assms by (auto simp: load_def split: list.splits)

lemma field_errors_Nil:
  assumes "field_errors L schema kvs = []" and "f \<in> set (load_fields schema)"
  shows "\<exists>r. deserialize L f (map_of kvs (attr f)) = Inr r"
proof (cases "deserialize L f (map_of kvs (attr f))")
  case (Inl ms)
  from field_error_entry[OF assms(2) this] assms(1) show ?thesis by simp
next
  case (Inr r)
  then show ?thesis by blast
qed

lemma map_of_loaded_aux:
  assumes "distinct (map attr fs)" and "f \<in> set fs"
  shows "map_of (concat (map (\<lambda>f. case deserialize L f (map_of kvs (attr f)) of
                                     Inr (Some v) \<Rightarrow> [(attr f, v)] | _ \<Rightarrow> []) fs)) (attr f)
         = (case deserialize L f (map_of kvs (attr f)) of Inr (Some v) \<Rightarrow> Some v | _ \<Rightarrow> None)"
  using assms
proof (induction fs)
  case Nil
  then show ?case by simp
next
  case (Cons g fs)
  show ?case
  proof (cases "g = f")
    case True
    have "attr f \<notin> attr ` set fs" using Cons.prems True by auto
    then have none: "map_of (concat (map (\<lambda>f. case deserialize L f (map_of kvs (attr f)) of
                                     Inr (Some v) \<Rightarrow> [(attr f, v)] | _ \<Rightarrow> []) fs)) (attr f) = None"
      by (force simp: map_of_eq_None_iff split: sum.splits option.splits)
    show ?thesis using True none
      by (auto simp: map_add_def split: sum.splits option.splits)
  next
    case False
    with Cons.prems have in_fs: "f \<in> set fs" and ne: "attr g \<noteq> attr f" by auto
    from Cons.IH[OF _ in_fs] Cons.prems(1) ne show ?thesis
      by (auto simp: map_add_def split: sum.splits option.splits)
  qed
qed

lemma map_of_loaded:
  assumes "distinct (map attr (load_fields schema))" and "f \<in> set (load_fields schema)"
  shows "map_of (loaded L schema kvs) (attr f)
         = (case deserialize L f (map_of kvs (attr f)) of Inr (Some v) \<Rightarrow> Some v | _ \<Rightarrow> None)"
  unfolding loaded_def by (rule map_of_loaded_aux[OF assms])

lemma getitems_Inr:
  assumes "map (map_of dados) ks = map Some vs"
  shows "getitems dados ks = Inr vs"
  using assms
proof (induction ks arbitrary: vs)
  case Nil
  then show ?case by simp
next
  case (Cons k ks)
  then obtain v vs' where vs: "vs = v # vs'" by (cases vs) auto
  with Cons.prems have "map_of dados k = Some v" and "map (map_of dados) ks = map Some vs'"
    by auto
  with Cons.IH[of vs'] vs show ?case by simp
qed

lemma columns_are_load_fields:
  "columns (entity_table e) = map attr (load_fields (schema_of e))"
  by (cases e) (simp_all add: columns_def load_fields_def ProjetoSchema_def TarefaSchema_def
      UsuarioSchema_def)

lemma ex_map_Some:
  assumes "\<forall>x \<in> set xs. \<exists>y. f x = Some y"
  shows "\<exists>ys. map f xs = map Some ys"
  using assms
proof (induction xs)
  case Nil
  then show ?case by simp
next
  case (Cons x xs)
  then obtain y ys where "f x = Some y" and "map f xs = map Some ys" by auto
  then have "map f (x # xs) = map Some (y # ys)" by simp
  then show ?case by blast
qed

lemma map_of_present: "k \<in> fst ` set kvs \<Longrightarrow> \<exists>raw. map_of kvs k = Some raw"
  by (metis map_of_eq_None_iff not_Some_eq)

lemma distinct_load_fields: "distinct (map attr (load_fields (schema_of e)))"
  using distinct_columns[of "entity_table e"] by (simp add: columns_are_load_fields)

lemma loaded_complete:
  assumes valid: "load L (schema_of e) (JObj kvs) = Inr dados"
    and complete: "set (columns (entity_table e)) \<subseteq> fst ` set kvs"
  shows "\<exists>vs. map (map_of dados) (columns (entity_table e)) = map Some vs"
proof (rule ex_map_Some, rule ballI)
  fix k assume k: "k \<in> set (columns (entity_table e))"
  then have "k \<in> attr ` set (load_fields (schema_of e))"
    unfolding columns_are_load_fields by simp
  then obtain f where f: "f \<in> set (load_fields (schema_of e))" and kf: "attr f = k"
    by (rule imageE) simp
  from k complete have "k \<in> fst ` set kvs" by (rule subsetD[rotated])
  from map_of_present[OF this] obtain raw where raw: "map_of kvs k = Some raw" ..
  have dados: "loaded L (schema_of e) kvs = dados"
    and noerr: "field_errors L (schema_of e) kvs = []"
    using load_Inr[OF valid] by simp_all
  from field_errors_Nil[OF noerr f] obtain r where r: "deserialize L f (map_of kvs (attr f)) = Inr r"
    by blast
  have "deserialize L f (Some raw) = Inr r"
    using r unfolding kf raw .
  from deserialize_present[OF this] obtain v where v: "r = Some v" ..
  have "map_of (loaded L (schema_of e) kvs) (attr f) = Some v"
    unfolding map_of_loaded[OF distinct_load_fields f] r v by simp
  then show "\<exists>y. map_of dados k = Some y"
    unfolding dados kf by blast
qed

lemma unknown_errors_Nil:
  assumes "unknown_errors schema kvs = []" and "k \<in> fst ` set kvs"
  shows "k \<in> set (map attr (load_fields schema))"
proof (rule ccontr)
  assume "k \<notin> set (map attr (load_fields schema))"
  from unknown_error_entry[OF assms(2) this] assms(1) show False by simp
qed





text \<open>A valid user payload has its three values as strings, in the body and in the result.\<close>

lemma string_field_Inr:
  assumes "kind f = fields_String \<or> kind f = fields_Email" and "required f"
    and "deserialize L f raw = Inr r"
  shows "\<exists>s. raw = Some (JStr s) \<and> r = Some (PyStr s)"
proof (cases raw)
  case None
  with assms show ?thesis by (simp add: deserialize_def)
next
  case (Some v)
  with assms show ?thesis
    by (cases v) (auto simp: deserialize_def split: sum.splits list.splits)
qed

lemma nome_field_load: "nome_field \<in> set (load_fields UsuarioSchema)"
  by (simp add: load_fields_def UsuarioSchema_def nome_field_def)

lemma usuario_field_valid:
  assumes valid: "load L UsuarioSchema (JObj kvs) = Inr dados"
    and f: "f \<in> set (load_fields UsuarioSchema)"
    and str: "kind f = fields_String \<or> kind f = fields_Email" and req: "required f"
  shows "\<exists>s. map_of kvs (attr f) = Some (JStr s) \<and> map_of dados (attr f) = Some (PyStr s)"
proof -
  have dados: "loaded L UsuarioSchema kvs = dados"
    and noerr: "field_errors L UsuarioSchema kvs = []"
    using load_Inr[OF valid] by simp_all
  from field_errors_Nil[OF noerr f] obtain r where r: "deserialize L f (map_of kvs (attr f)) = Inr r"
    by blast
  from string_field_Inr[OF str req r] obtain s
    where s: "map_of kvs (attr f) = Some (JStr s)" and rs: "r = Some (PyStr s)" by blast
  have "distinct (map attr (load_fields UsuarioSchema))"
    using distinct_load_fields[of Usuario] by simp
  from map_of_loaded[OF this f, of L kvs] have "map_of (loaded L UsuarioSchema kvs) (attr f) = Some (PyStr s)"
    unfolding r rs by simp
  with s show ?thesis unfolding dados by blast
qed

lemma usuario_valid:
  assumes valid: "load L UsuarioSchema (JObj kvs) = Inr dados"
  shows "\<exists>n em s. map_of kvs (ascii ''nome'') = Some (JStr n)
                \<and> map_of kvs (ascii ''email'') = Some (JStr em)
                \<and> map_of kvs (ascii ''senha'') = Some (JStr s)
                \<and> map_of dados (ascii ''nome'') = Some (PyStr n)
                \<and> map_of dados (ascii ''email'') = Some (PyStr em)
                \<and> map_of dados (ascii ''senha'') = Some (PyStr s)"
proof -
  from usuario_field_valid[OF valid nome_field_load] obtain n
    where "map_of kvs (ascii ''nome'') = Some (JStr n)" "map_of dados (ascii ''nome'') = Some (PyStr n)"
    by (auto simp: nome_field_def)
  moreover from usuario_field_valid[OF valid email_field_load] obtain em
    where "map_of kvs (ascii ''email'') = Some (JStr em)" "map_of dados (ascii ''email'') = Some (PyStr em)"
    by (auto simp: email_field_def)
  moreover from usuario_field_valid[OF valid senha_field_load] obtain s
    where "map_of kvs (ascii ''senha'') = Some (JStr s)" "map_of dados (ascii ''senha'') = Some (PyStr s)"
    by (auto simp: senha_field_def)
  ultimately show ?thesis by blast
qed

text \<open>Binding the validated values, and when an \<open>INSERT\<close> succeeds.\<close>

lemma bind_all_Inr:
  assumes "list_all2 (\<lambda>v x. f v = Inr x) vs xs"
  shows "bind_all f vs = Inr xs"
  using assms by (induction rule: list_all2_induct) simp_all

lemma storable_adapt:
  assumes "storable v"
  shows "\<exists>x. adapt v = Inr x"
  using assms by (cases v) simp_all

lemma bind_storable:
  assumes "\<forall>v \<in> set vs. storable v"
  shows "\<exists>xs. list_all2 (\<lambda>v x. adapt v = Inr x) vs xs"
  using assms
proof (induction vs)
  case Nil
  then show ?case by simp
next
  case (Cons v vs)
  then obtain xs where "list_all2 (\<lambda>v x. adapt v = Inr x) vs xs" by auto
  moreover from Cons.prems storable_adapt[of v] obtain x where "adapt v = Inr x" by auto
  ultimately have "list_all2 (\<lambda>v x. adapt v = Inr x) (v # vs) (x # xs)" by simp
  then show ?case ..
qed



lemma getitems_values:
  assumes "map (map_of dados) ks = map Some vs"
  shows "set vs \<subseteq> snd ` set dados"
  using assms
proof (induction ks arbitrary: vs)
  case Nil
  then show ?case by simp
next
  case (Cons k ks)
  then obtain v vs' where vs: "vs = v # vs'" by (cases vs) auto
  with Cons.prems have k: "map_of dados k = Some v" and rest: "map (map_of dados) ks = map Some vs'"
    by auto
  from map_of_SomeD[OF k] have "v \<in> snd ` set dados" by (metis imageI snd_conv)
  with Cons.IH[OF rest] vs show ?case by simp
qed






lemma keys_are_columns:
  "projeto_keys = columns TB_PROJETOS" "tarefa_keys = columns TB_TAREFAS"
  "usuario_keys = columns TB_USUARIOS"
  by (simp_all add: projeto_keys_def tarefa_keys_def usuario_keys_def columns_def)






lemma usuario_bound:
  assumes valid: "load L UsuarioSchema (JObj kvs) = Inr dados"
    and got: "map (map_of dados) (columns TB_USUARIOS) = map Some vs"
    and bound: "list_all2 (\<lambda>v x. adapt v = Inr x) vs xs"
  shows "\<exists>n em s. map_of kvs (ascii ''email'') = Some (JStr em)
           \<and> xs = [TEXT n, TEXT em, TEXT s]
           \<and> getitems_json (JObj kvs) usuario_keys = Inr [JStr n, JStr em, JStr s]
           \<and> bind_all adapt_json [JStr n, JStr em, JStr s] = Inr xs"
proof -
  from usuario_valid[OF valid] obtain n em s
    where raw: "map_of kvs (ascii ''nome'') = Some (JStr n)"
        "map_of kvs (ascii ''email'') = Some (JStr em)"
        "map_of kvs (ascii ''senha'') = Some (JStr s)"
      and val: "map_of dados (ascii ''nome'') = Some (PyStr n)"
        "map_of dados (ascii ''email'') = Some (PyStr em)"
        "map_of dados (ascii ''senha'') = Some (PyStr s)"
    by blast
  from got val have vs: "vs = [PyStr n, PyStr em, PyStr s]"
    by (auto simp: columns_def)
  from bound obtain a b c where xs: "xs = [a, b, c]"
    and abc: "adapt (PyStr n) = Inr a" "adapt (PyStr em) = Inr b" "adapt (PyStr s) = Inr c"
    unfolding vs by (auto simp: list_all2_Cons1)
  from abc have enc: "encodable n" "encodable em" "encodable s"
    and abc': "a = TEXT n" "b = TEXT em" "c = TEXT s"
    by (auto split: if_splits)
  have gotj: "getitems_json (JObj kvs) usuario_keys = Inr [JStr n, JStr em, JStr s]"
    unfolding getitems_json_def json.case
    by (rule getitems_Inr) (simp add: usuario_keys_def raw)
  have "bind_all adapt_json [JStr n, JStr em, JStr s] = Inr xs"
    by (simp add: xs abc' enc)
  with raw(2) xs abc' gotj show ?thesis by blast
qed







section \<open>Storage errors\<close>

text \<open>
  The status of a response is 200, 201 or 400: no handler answers 404, and the 500 of
  the \<open>except sqlite3.Error\<close> clause is never returned, because \<open>schema.load\<close> is
  the only call inside the \<open>try\<close> and it does not touch the database.
\<close>

lemma run_write_status:
  assumes "snd (run_write w call st m) = Response st' b"
  shows "st' = st"
  using assms by (auto simp: run_write_def split: sum.splits)

lemma run_select_status:
  assumes "snd (run_select w t) = Response st' b"
  shows "st' = 200"
  using assms by (auto simp: run_select_def split: sum.splits)

lemma try_load_status:
  assumes "try_load L schema w body = Inl r" and "snd r = Response st b"
  shows "st = 400"
  using try_load_Inl_shape[OF assms(1)] assms(2) by auto

lemma handler_status:
  assumes "snd (handle L w req) = Response st b"
  shows "st = 200 \<or> st = 201 \<or> st = 400"
proof (cases req)
  case (HTTP_GET e)
  with assms show ?thesis
    by (cases e) (auto simp: listar_projetos_def listar_tarefas_def listar_usuarios_def
        dest: run_select_status)
next
  case (HTTP_POST e body)
  with assms show ?thesis
    by (cases e)
       (auto simp: criar_projeto_def criar_tarefa_def criar_usuario_def
          split: sum.splits dest: run_write_status try_load_status)
next
  case (HTTP_PUT e i body)
  with assms show ?thesis
    by (cases e)
       (auto simp: atualizar_projeto_def atualizar_tarefa_def atualizar_usuario_def
          split: sum.splits dest: run_write_status try_load_status)
next
  case (HTTP_DELETE e i)
  with assms show ?thesis
    by (cases e)
       (auto simp: excluir_projeto_def excluir_tarefa_def excluir_usuario_def
          dest: run_write_status)
next
  case HTTP_GET_root
  with assms show ?thesis by (simp add: boas_vindas_def)
qed

text \<open>
  Claim C1 says that a create or update request whose body passes validation and whose
  SQL statement fails with a storage error gets HTTP 500 with the fixed generic message,
  the error being logged. In the code the statement runs after the \<open>try\<close> block, so
  its error is caught by no \<open>except\<close> clause. Evaluated at a valid user payload whose
  email is already stored: the body passes validation, the \<open>IntegrityError\<close> of the
  \<open>INSERT\<close> leaves the handler as an exception, no response is returned, nothing is
  written to the log, and the store is unchanged.
\<close>

theorem storage_error_escapes_handler:
  "\<not> isl (load ascii_lib (schema_of Usuario) (JObj usuario_ana))
   \<and> snd (handle ascii_lib world1 (HTTP_POST Usuario (JObj usuario_ana)))
       = Raised (sqlite3_Error (UNIQUE_constraint_failed TB_USUARIOS (ascii ''email'')))
   \<and> api_log (fst (handle ascii_lib world1 (HTTP_POST Usuario (JObj usuario_ana)))) = []
   \<and> rows (db (fst (handle ascii_lib world1 (HTTP_POST Usuario (JObj usuario_ana))))) TB_USUARIOS
       = [ana_row]"
  by code_simp

section \<open>Identifiers that are not in the store\<close>

text \<open>
  \<open>DELETE\<close> and \<open>UPDATE\<close> on an id that no row has change nothing and raise nothing.
  So, for an id that can be bound, delete answers 200 and leaves the store as it was,
  and so does update when the body is valid, carries every field of the entity and its
  values can be stored.
\<close>

lemma execute_delete_absent:
  assumes "i \<notin> fst ` set (rows d t)"
  shows "execute d (DELETE t i) = Inr (d, [])"
proof -
  from assms have "filter (\<lambda>r. fst r \<noteq> i) (rows d t) = rows d t"
    by (auto simp: filter_id_conv)
  then show ?thesis by simp
qed

lemma execute_update_absent:
  assumes "i \<notin> fst ` set (rows d t)"
  shows "execute d (UPDATE t vs i) = Inr (d, [])"
  using assms by simp

lemma run_write_absent:
  assumes "execute (db w) s = Inr (db w, [])"
  shows "snd (run_write (get_db_connection w) (Inr s) st m) = Response st (Mensagem m)
       \<and> db (fst (run_write (get_db_connection w) (Inr s) st m)) = db w"
  using assms by (simp add: run_write_def get_db_connection_def)

lemma delete_absent_id:
  assumes "sqlite_int i" and "i \<notin> fst ` set (rows (db w) (entity_table e))"
  shows "(\<exists>m. snd (handle L w (HTTP_DELETE e i)) = Response 200 (Mensagem m))
       \<and> db (fst (handle L w (HTTP_DELETE e i))) = db w"
  using run_write_absent[OF execute_delete_absent[OF assms(2)]] assms(1)
  by (cases e)
     (simp_all add: excluir_projeto_def excluir_tarefa_def excluir_usuario_def DELETE_WHERE_id_def
        bind_id_def)

lemma update_absent_id:
  assumes valid: "load L (schema_of e) (JObj kvs) = Inr dados"
    and complete: "set (columns (entity_table e)) \<subseteq> fst ` set kvs"
    and can_store: "\<forall>v \<in> snd ` set dados. storable v"
    and range: "sqlite_int i"
    and absent: "i \<notin> fst ` set (rows (db w) (entity_table e))"
  shows "(\<exists>m. snd (handle L w (HTTP_PUT e i (JObj kvs))) = Response 200 (Mensagem m))
       \<and> db (fst (handle L w (HTTP_PUT e i (JObj kvs)))) = db w"
proof -
  from loaded_complete[OF valid complete] obtain vs
    where got: "map (map_of dados) (columns (entity_table e)) = map Some vs" ..
  from getitems_values[OF got] can_store have "\<forall>v \<in> set vs. storable v" by blast
  from bind_storable[OF this] obtain xs
    where bound: "list_all2 (\<lambda>v x. adapt v = Inr x) vs xs" ..
  note upd = run_write_absent[OF execute_update_absent[OF absent]]
  have call: "UPDATE_WHERE_id t (Inr xs) i = Inr (UPDATE t xs i)" for t
    using range by (simp add: UPDATE_WHERE_id_def bind_id_def)
  show ?thesis
  proof (cases e)
    case Projeto
    with valid got upd[of xs] show ?thesis
      by (simp add: atualizar_projeto_def try_load_Inr keys_are_columns getitems_Inr
          bind_all_Inr[OF bound] call)
  next
    case Tarefa
    with valid got upd[of xs] show ?thesis
      by (simp add: atualizar_tarefa_def try_load_Inr keys_are_columns getitems_Inr
          bind_all_Inr[OF bound] call)
  next
    case Usuario
    with valid got have v: "load L UsuarioSchema (JObj kvs) = Inr dados"
      and g: "map (map_of dados) (columns TB_USUARIOS) = map Some vs" by simp_all
    from usuario_bound[OF v g bound] obtain n em s
      where gotj: "getitems_json (JObj kvs) usuario_keys = Inr [JStr n, JStr em, JStr s]"
        and bj: "bind_all adapt_json [JStr n, JStr em, JStr s] = Inr xs"
      by blast
    from Usuario upd[of xs] show ?thesis
      by (simp del: bind_all.simps
          add: atualizar_usuario_def try_load_Inr[OF v] gotj bj call)
  qed
qed

text \<open>
  Claim C4 says that, for an identifier not present in the store, update with a valid
  body returns the same HTTP 200 as against an existing identifier. Evaluated at a
  project body that is valid and has only the required \<open>nome\<close>: the body passes
  validation, the id 7 is not in the store, and the handler raises \<open>KeyError\<close> for
  \<open>descricao\<close> instead of returning 200; against the existing id 1 it raises the same.
\<close>

theorem update_without_optional_fields_raises:
  "\<not> isl (load ascii_lib (schema_of Projeto) (JObj projeto_so_nome))
   \<and> 7 \<notin> fst ` set (rows (db world1) (entity_table Projeto))
   \<and> snd (handle ascii_lib world1 (HTTP_PUT Projeto 7 (JObj projeto_so_nome)))
       = Raised (KeyError (ascii ''descricao''))
   \<and> snd (handle ascii_lib world1 (HTTP_PUT Projeto 1 (JObj projeto_so_nome)))
       = Raised (KeyError (ascii ''descricao''))"
  by code_simp

end
